theory Spec2Isabelle
  imports Complex_Main "HOL-Library.Word"
begin

section \<open>The polar stereographic plate manager\<close>

text \<open>
  A shallow embedding of \<^verbatim>\<open>src/vw/Plate/PolarStereoPlateManager.cc\<close>: the
  georeference builder (\<^verbatim>\<open>georeference\<close>, two overloads), the placement
  selector (\<^verbatim>\<open>transform_image\<close>) and the mipmap synthesizer
  (\<^verbatim>\<open>generate_mipmap_tile\<close>).

  Conventions of the embedding.
  \<^item> A C++ \<^verbatim>\<open>double\<close> is a \<^typ>\<open>real\<close>: the rounding of sums, products,
    quotients and square roots is not modelled. The level fitting takes the
    ceiling of a quotient of logarithms, which the rounding can move to the next
    integer: the double value of that quotient is a parameter of the selector.
    The one place where the code can divide by zero (the local resolution of a
    sample point) is modelled with an explicit infinity.
  \<^item> The tile coordinates and the level of \<^verbatim>\<open>generate_mipmap_tile\<close> are C++
    \<^verbatim>\<open>int\<close>s on which the code computes: they are 32-bit words, read as two's
    complement by \<open>sint\<close>, and their arithmetic wraps around (C++ leaves the
    overflow of an \<^verbatim>\<open>int\<close> undefined; the wrap is what the usual targets
    compute). The level of
    \<^verbatim>\<open>georeference\<close> only enters \<^verbatim>\<open>pow\<close> and is an \<^typ>\<open>int\<close>. Image sides
    and the tile size are \<^typ>\<open>nat\<close>.
  \<^item> A C++ exception is a value \<open>Inl e\<close> of a sum type.
  \<^item> The tile store is seen through the operations the code calls on it; the
    calls of one invocation are recorded in a log.
\<close>

subsection \<open>Vectors and matrices\<close>

type_synonym Vector2 = "real \<times> real"

definition vadd :: "Vector2 \<Rightarrow> Vector2 \<Rightarrow> Vector2" where
  "vadd p q = (fst p + fst q, snd p + snd q)"

definition vsub :: "Vector2 \<Rightarrow> Vector2 \<Rightarrow> Vector2" where
  "vsub p q = (fst p - fst q, snd p - snd q)"

definition norm_2 :: "Vector2 \<Rightarrow> real" where
  "norm_2 p = sqrt (fst p * fst p + snd p * snd p)"

text \<open>A \<^verbatim>\<open>Matrix3x3\<close> maps a (row, column) index to its entry.\<close>

type_synonym Matrix3x3 = "nat \<times> nat \<Rightarrow> real"

definition identity_matrix :: Matrix3x3 where
  "identity_matrix = (\<lambda>(i, j). if i = j then 1 else 0)"

subsection \<open>Datum and georeference\<close>

record Datum =
  datum_name :: string
  semi_major_axis :: real

datatype Projection =
    Geographic
  | Stereographic real real real real real
  | OtherProjection string

record GeoReference =
  datum :: Datum
  projection :: Projection
  transform :: Matrix3x3

text \<open>\<^verbatim>\<open>GeoReference(datum)\<close>: geographic coordinates, identity transform.\<close>

definition GeoReference_of :: "Datum \<Rightarrow> GeoReference" where
  "GeoReference_of d = \<lparr>datum = d, projection = Geographic, transform = identity_matrix\<rparr>"

definition set_stereographic ::
  "real \<Rightarrow> real \<Rightarrow> real \<Rightarrow> real \<Rightarrow> real \<Rightarrow> GeoReference \<Rightarrow> GeoReference" where
  "set_stereographic lat lon scale fe fn g = g\<lparr>projection := Stereographic lat lon scale fe fn\<rparr>"

definition set_transform :: "Matrix3x3 \<Rightarrow> GeoReference \<Rightarrow> GeoReference" where
  "set_transform m g = g\<lparr>transform := m\<rparr>"

subsection \<open>Images and the tile store\<close>

text \<open>
  A pixel with an alpha channel, here \<^verbatim>\<open>PixelGrayA\<close> with real channels. The
  default-constructed pixel has every channel zero (see
  \<^verbatim>\<open>test_pixel_graya\<close> in \<^verbatim>\<open>TestPixelTypes.h\<close>).
\<close>

record PixelGrayA =
  px_v :: real
  px_a :: real

definition PixelGrayA_default :: PixelGrayA where
  "PixelGrayA_default = \<lparr>px_v = 0, px_a = 0\<rparr>"

record ImageView =
  cols :: nat
  rows :: nat
  pixel :: "nat \<Rightarrow> nat \<Rightarrow> PixelGrayA"

text \<open>\<^verbatim>\<open>ImageView<PixelT>(c, r)\<close>: every pixel default-constructed.\<close>

definition ImageView_new :: "nat \<Rightarrow> nat \<Rightarrow> ImageView" where
  "ImageView_new c r = \<lparr>cols = c, rows = r, pixel = (\<lambda>x y. PixelGrayA_default)\<rparr>"

type_synonym TransactionOrNeg = int

text \<open>The C++ type \<^verbatim>\<open>int\<close>: 32 bits, two's complement.\<close>

type_synonym int32 = "32 word"

datatype read_failure = TileNotFoundErr | IOErr string

text \<open>
  The platefile as the manager uses it: its tile size and the outcome of a
  \<^verbatim>\<open>read(col, row, level, transaction, exact)\<close> at the time of the call.
\<close>

record PlateFile =
  default_tile_size :: nat
  read :: "int32 \<Rightarrow> int32 \<Rightarrow> int32 \<Rightarrow> TransactionOrNeg \<Rightarrow> bool \<Rightarrow> read_failure + ImageView"

record PolarStereoPlateManager =
  m_platefile :: PlateFile

subsection \<open>The georeference builder\<close>

text \<open>
  \<^verbatim>\<open>georeference(level, north_pole, datum)\<close>, lines 15 to 30. It is a member
  function, so the manager is its first argument; \<^verbatim>\<open>pow(2,level)\<close> is
  \<open>2 powr level\<close>.
\<close>

definition georeference ::
  "PolarStereoPlateManager \<Rightarrow> int \<Rightarrow> bool \<Rightarrow> Datum \<Rightarrow> GeoReference" where
  "georeference this level north_pole d =
     (let output_georef = GeoReference_of d;
          output_georef = set_stereographic (if north_pole then 90 else -90) 0 1 0 0 output_georef;
          transform = identity_matrix;
          pixels_per_meters = 256 * (2 powr real_of_int level) / (2 * semi_major_axis d);
          transform = transform((0, 0) := 1 / pixels_per_meters);
          transform = transform((1, 1) := - 1 / pixels_per_meters);
          transform = transform((0, 2) := - semi_major_axis d);
          transform = transform((1, 2) := semi_major_axis d)
      in set_transform transform output_georef)"

text \<open>
  \<^verbatim>\<open>georeference(level)\<close>, lines 32 to 37. The constructor
  \<^verbatim>\<open>cartography::Datum("WGS84")\<close> is not part of the sources at hand and is
  the parameter \<open>Datum_of\<close>. The warning written to the log is not modelled.
\<close>

definition georeference_level ::
  "(string \<Rightarrow> Datum) \<Rightarrow> PolarStereoPlateManager \<Rightarrow> int \<Rightarrow> GeoReference" where
  "georeference_level Datum_of this level = georeference this level True (Datum_of ''WGS84'')"

text \<open>The pixel spacing of a georeference: the x scale of its affine transform.\<close>

definition pixel_spacing :: "GeoReference \<Rightarrow> real" where
  "pixel_spacing g = transform g (0, 0)"

subsection \<open>The placement selector\<close>

text \<open>
  \<^verbatim>\<open>transform_image\<close>, lines 39 to 101. The five sample points are built from
  integer divisions of the image sides.
\<close>

definition test_points :: "ImageView \<Rightarrow> Vector2 list" where
  "test_points img =
     [(real (cols img div 2), real (rows img div 2)),
      (real (cols img * 3 div 4), real (rows img div 2)),
      (real (cols img * 1 div 4), real (rows img div 2)),
      (real (cols img div 2), real (rows img * 3 div 4)),
      (real (cols img div 2), real (rows img * 1 div 4))]"

text \<open>
  The vote loop of lines 51 to 54; \<open>lonlat\<close> is \<^verbatim>\<open>georef.pixel_to_lonlat\<close>,
  whose component 1 is the latitude.
\<close>

fun count_north :: "(Vector2 \<Rightarrow> Vector2) \<Rightarrow> Vector2 list \<Rightarrow> nat \<Rightarrow> nat" where
  "count_north lonlat [] north_count = north_count"
| "count_north lonlat (p # ps) north_count =
     count_north lonlat ps (if snd (lonlat p) > 0 then north_count + 1 else north_count)"

text \<open>The unit-scale georeference of lines 58 to 66.\<close>

definition nominal_georef :: "Datum \<Rightarrow> bool \<Rightarrow> GeoReference" where
  "nominal_georef d is_north =
     (let output_georef = GeoReference_of d;
          output_georef = set_stereographic (if is_north then 90 else -90) 0 1 0 0 output_georef;
          transform = identity_matrix;
          transform = transform((1, 1) := - 1);
          transform = transform((0, 2) := - semi_major_axis d);
          transform = transform((1, 2) := semi_major_axis d)
      in set_transform transform output_georef)"

text \<open>
  The value of a \<^verbatim>\<open>double\<close> that may be \<open>+\<infinity>\<close>: a positive number divided by
  a zero norm. \<open>xdiv\<close> is the division of a positive numerator, \<open>xgreater\<close>
  the comparison \<^verbatim>\<open>>\<close>.
\<close>

datatype xdouble = Finite real | PosInf

definition xdiv :: "real \<Rightarrow> real \<Rightarrow> xdouble" where
  "xdiv n d = (if d = 0 then PosInf else Finite (n / d))"

fun xgreater :: "xdouble \<Rightarrow> xdouble \<Rightarrow> bool" where
  "xgreater (Finite x) (Finite y) = (x > y)"
| "xgreater PosInf (Finite y) = True"
| "xgreater x PosInf = False"

text \<open>Lines 71 to 74 for one sample point; \<open>forward\<close> is \<^verbatim>\<open>geotx.forward\<close>.\<close>

definition local_spacing :: "(Vector2 \<Rightarrow> Vector2) \<Rightarrow> Vector2 \<Rightarrow> real" where
  "local_spacing forward p =
     (let i_pos = forward p;
          x_res = vsub (forward (vadd p (1, 0))) i_pos;
          y_res = vsub (forward (vadd p (0, 1))) i_pos
      in min (norm_2 x_res) (norm_2 y_res))"

definition i_resolution :: "(Vector2 \<Rightarrow> Vector2) \<Rightarrow> Vector2 \<Rightarrow> xdouble" where
  "i_resolution forward p = xdiv 1 (local_spacing forward p)"

text \<open>The loop of lines 70 to 77.\<close>

fun resolution_loop :: "(Vector2 \<Rightarrow> Vector2) \<Rightarrow> Vector2 list \<Rightarrow> xdouble \<Rightarrow> xdouble" where
  "resolution_loop forward [] requested_pixels_per_meters = requested_pixels_per_meters"
| "resolution_loop forward (p # ps) requested_pixels_per_meters =
     resolution_loop forward ps
       (if xgreater (i_resolution forward p) requested_pixels_per_meters
        then i_resolution forward p else requested_pixels_per_meters)"

text \<open>
  Lines 80 and 81. The quotient \<^verbatim>\<open>log(x)/log(2)\<close> is computed in doubles by the
  C library: its value is close to the real \<open>log\<^sub>2 x\<close> but not equal to it, and
  which double it is the sources do not say. It is the parameter
  \<open>log2_double\<close>. \<^verbatim>\<open>boost::numeric_cast<int>\<close> throws when its argument is
  outside the range of \<^verbatim>\<open>int\<close>; the logarithm of an infinite argument is
  infinite and overflows it. A non-positive argument has no real logarithm: the
  C++ value is \<open>-\<infinity>\<close> or a NaN, reported here as an error of its own.
\<close>

datatype numeric_error = positive_overflow | negative_overflow | not_a_number

definition numeric_cast_int :: "int \<Rightarrow> numeric_error + int" where
  "numeric_cast_int z =
     (if z < - (2 ^ 31) then Inl negative_overflow
      else if z > 2 ^ 31 - 1 then Inl positive_overflow
      else Inr z)"

definition log_argument :: "real \<Rightarrow> real \<Rightarrow> real" where
  "log_argument requested_pixels_per_meters R = requested_pixels_per_meters * 2 * R / 256"

definition fit_level :: "(real \<Rightarrow> real) \<Rightarrow> xdouble \<Rightarrow> real \<Rightarrow> numeric_error + int" where
  "fit_level log2_double requested_pixels_per_meters R =
     (case requested_pixels_per_meters of
        PosInf \<Rightarrow> (if R > 0 then Inl positive_overflow else Inl not_a_number)
      | Finite r \<Rightarrow>
          (if log_argument r R < 0 then Inl not_a_number
           else if log_argument r R = 0 then Inl negative_overflow
           else numeric_cast_int \<lceil>log2_double (log_argument r R)\<rceil>))"

text \<open>
  What \<^verbatim>\<open>transform_image\<close> decides: the level, the pole and the georeference
  of the output. The resampled image and the transform object are built from
  these by \<^verbatim>\<open>GeoTransform\<close> and \<^verbatim>\<open>transform\<close>, which are not part of the
  sources at hand; \<^verbatim>\<open>pixel_to_lonlat\<close> and the forward map of
  \<^verbatim>\<open>GeoTransform\<close> are parameters, as is \<open>log2_double\<close>.
\<close>

record placement =
  placed_level :: int
  placed_north :: bool
  placed_georef :: GeoReference

definition is_north_of :: "(GeoReference \<Rightarrow> Vector2 \<Rightarrow> Vector2) \<Rightarrow> GeoReference \<Rightarrow> ImageView \<Rightarrow> bool" where
  "is_north_of pixel_to_lonlat georef img =
     (count_north (pixel_to_lonlat georef) (test_points img) 0 > 2)"

definition requested_resolution ::
  "(GeoReference \<Rightarrow> Vector2 \<Rightarrow> Vector2) \<Rightarrow> (GeoReference \<Rightarrow> GeoReference \<Rightarrow> Vector2 \<Rightarrow> Vector2) \<Rightarrow>
   GeoReference \<Rightarrow> ImageView \<Rightarrow> xdouble" where
  "requested_resolution pixel_to_lonlat GeoTransform_forward georef img =
     (let is_north = is_north_of pixel_to_lonlat georef img;
          output_georef = nominal_georef (datum georef) is_north;
          forward = GeoTransform_forward georef output_georef
      in resolution_loop forward (test_points img)
           (xdiv 256 (2 * semi_major_axis (datum georef))))"

definition transform_image ::
  "(real \<Rightarrow> real) \<Rightarrow> (GeoReference \<Rightarrow> Vector2 \<Rightarrow> Vector2) \<Rightarrow>
   (GeoReference \<Rightarrow> GeoReference \<Rightarrow> Vector2 \<Rightarrow> Vector2) \<Rightarrow>
   PolarStereoPlateManager \<Rightarrow> GeoReference \<Rightarrow> ImageView \<Rightarrow> numeric_error + placement" where
  "transform_image log2_double pixel_to_lonlat GeoTransform_forward this georef img =
     (let is_north = is_north_of pixel_to_lonlat georef img;
          requested_pixels_per_meters =
            requested_resolution pixel_to_lonlat GeoTransform_forward georef img
      in case fit_level log2_double requested_pixels_per_meters (semi_major_axis (datum georef)) of
           Inl e \<Rightarrow> Inl e
         | Inr level \<Rightarrow>
             Inr \<lparr>placed_level = level, placed_north = is_north,
                  placed_georef = georeference this level is_north (datum georef)\<rparr>)"

subsection \<open>The level fitting in the words of the spec\<close>

text \<open>
  The spec, section 4.2, steps 5 and 6: "Take the maximum of the five
  local-resolution estimates as \<open>requested_pixels_per_meter\<close>, seeded so it is
  always \<open>\<ge>\<close> the coarsest level's resolution" and
  "\<open>level = ceil(log2(requested_pixels_per_meter \<cdot> 2 \<cdot> semi_major_axis / tile_size))\<close>",
  a local-resolution estimate being "the reciprocal of the smaller of the two
  resulting displacement magnitudes". The list \<open>spacings\<close> holds these smaller
  magnitudes, one for each sample point.
\<close>

definition requested_pixels_per_meter_spec :: "real \<Rightarrow> real \<Rightarrow> real list \<Rightarrow> real" where
  "requested_pixels_per_meter_spec tile_size R spacings =
     Max (insert (tile_size / (2 * R)) ((\<lambda>m. 1 / m) ` set spacings))"


text \<open>
  The spec, section 4.2, step 4: "forward-transform the point and its two
  unit-pixel neighbors (+1 column, +1 row); the reciprocal of the smaller of the
  two resulting displacement magnitudes". The magnitude of the displacement
  from \<open>q\<close> to \<open>p\<close> is the Euclidean distance of the two points.
\<close>

definition displacement_magnitude :: "Vector2 \<Rightarrow> Vector2 \<Rightarrow> real" where
  "displacement_magnitude p q = sqrt ((fst p - fst q)\<^sup>2 + (snd p - snd q)\<^sup>2)"

definition local_spacing_spec :: "(Vector2 \<Rightarrow> Vector2) \<Rightarrow> Vector2 \<Rightarrow> real" where
  "local_spacing_spec forward p =
     min (displacement_magnitude (forward (fst p + 1, snd p)) (forward p))
         (displacement_magnitude (forward (fst p, snd p + 1)) (forward p))"

text \<open>
  The smaller displacement magnitudes that \<^verbatim>\<open>transform_image\<close> computes at its
  five sample points, under the unit-scale georeference of the pole it chose.
\<close>

definition sample_spacings ::
  "(GeoReference \<Rightarrow> Vector2 \<Rightarrow> Vector2) \<Rightarrow> (GeoReference \<Rightarrow> GeoReference \<Rightarrow> Vector2 \<Rightarrow> Vector2) \<Rightarrow>
   GeoReference \<Rightarrow> ImageView \<Rightarrow> real list" where
  "sample_spacings pixel_to_lonlat GeoTransform_forward georef img =
     map (local_spacing (GeoTransform_forward georef
            (nominal_georef (datum georef) (is_north_of pixel_to_lonlat georef img))))
       (test_points img)"

subsection \<open>The mipmap synthesizer\<close>

text \<open>
  The image operations that \<^verbatim>\<open>generate_mipmap_tile\<close> calls
  (\<^verbatim>\<open>crop\<close>, \<^verbatim>\<open>subsample\<close>, \<^verbatim>\<open>separable_convolution_filter\<close>,
  \<^verbatim>\<open>is_transparent\<close>) live in \<^verbatim>\<open>vw/Image\<close>, outside the sources at hand.
\<close>

text \<open>
  Modelled from the spec: the assignment \<^verbatim>\<open>crop(super, x0, y0, w, h) = child\<close>,
  which is missing from the sources. The spec: "Place each successfully read
  child into its \<open>tile_size \<times> tile_size\<close> quadrant of the canvas at offset
  \<open>(i\<cdot>tile_size, j\<cdot>tile_size)\<close>". Tiles of the store have the side
  \<open>tile_size\<close>.
\<close>

definition crop_assign :: "ImageView \<Rightarrow> nat \<Rightarrow> nat \<Rightarrow> nat \<Rightarrow> nat \<Rightarrow> ImageView \<Rightarrow> ImageView" where
  "crop_assign super x0 y0 w h child =
     super\<lparr>pixel := (\<lambda>x y. if x0 \<le> x \<and> x < x0 + w \<and> y0 \<le> y \<and> y < y0 + h
                             then pixel child (x - x0) (y - y0) else pixel super x y)\<rparr>"

text \<open>
  Modelled from the spec: \<^verbatim>\<open>subsample(image, 2)\<close>, which is missing from the
  sources. The spec: "decimate directly by a factor of 2 (stride-2 sample, no
  averaging)".
\<close>

definition subsample :: "ImageView \<Rightarrow> nat \<Rightarrow> ImageView" where
  "subsample img f =
     \<lparr>cols = (cols img + f - 1) div f, rows = (rows img + f - 1) div f,
      pixel = (\<lambda>x y. pixel img (f * x) (f * y))\<rparr>"

text \<open>
  Modelled from the spec: \<^verbatim>\<open>separable_convolution_filter\<close> with the kernel
  \<open>(0.5, 0.5)\<close> on both axes and \<^verbatim>\<open>ConstantEdgeExtension\<close>, which is missing
  from the sources. The spec: "apply a separable 2-tap box filter (weights
  \<open>0.5, 0.5\<close>) along both axes with constant edge extension, then decimate by a
  factor of 2 (area-average downsample)". The two taps of the output pixel at \<open>x\<close>
  are the input pixels at \<open>x\<close> and \<open>x + 1\<close>, so that the decimated pixel is the
  average of one aligned 2 by 2 block; past the last column or row the edge pixel
  is repeated.
\<close>

definition px_scale :: "real \<Rightarrow> PixelGrayA \<Rightarrow> PixelGrayA" where
  "px_scale k p = \<lparr>px_v = k * px_v p, px_a = k * px_a p\<rparr>"

definition px_add :: "PixelGrayA \<Rightarrow> PixelGrayA \<Rightarrow> PixelGrayA" where
  "px_add p q = \<lparr>px_v = px_v p + px_v q, px_a = px_a p + px_a q\<rparr>"

definition box_filter_x :: "ImageView \<Rightarrow> ImageView" where
  "box_filter_x img =
     img\<lparr>pixel := (\<lambda>x y. px_add (px_scale 0.5 (pixel img x y))
                                 (px_scale 0.5 (pixel img (min (x + 1) (cols img - 1)) y)))\<rparr>"

definition box_filter_y :: "ImageView \<Rightarrow> ImageView" where
  "box_filter_y img =
     img\<lparr>pixel := (\<lambda>x y. px_add (px_scale 0.5 (pixel img x y))
                                 (px_scale 0.5 (pixel img x (min (y + 1) (rows img - 1)))))\<rparr>"

definition separable_convolution_filter :: "ImageView \<Rightarrow> ImageView" where
  "separable_convolution_filter img = box_filter_y (box_filter_x img)"

text \<open>
  Modelled from the spec: \<^verbatim>\<open>is_transparent\<close> on a pixel and on an image, which
  are missing from the sources. The spec: a tile is "wholly invalid" when "no
  pixel carries valid data"; a pixel is valid when its alpha channel is not zero.
\<close>

definition px_valid :: "PixelGrayA \<Rightarrow> bool" where
  "px_valid p = (px_a p \<noteq> 0)"

definition is_transparent :: "ImageView \<Rightarrow> bool" where
  "is_transparent img =
     list_all (\<lambda>x. list_all (\<lambda>y. \<not> px_valid (pixel img x y)) [0..<rows img]) [0..<cols img]"

text \<open>The calls made on the platefile, in the order they are made.\<close>

datatype store_call =
    Read_call int32 int32 int32 TransactionOrNeg bool
  | Write_update_call ImageView int32 int32 int32 TransactionOrNeg

text \<open>
  The loop of lines 113 to 128 over the children \<open>(i, j)\<close> still to be read. A
  \<^verbatim>\<open>TileNotFoundErr\<close> is caught and the canvas left as it is; any other
  exception leaves the function.
\<close>

fun gather_children ::
  "PlateFile \<Rightarrow> int32 \<Rightarrow> int32 \<Rightarrow> int32 \<Rightarrow> TransactionOrNeg \<Rightarrow> (nat \<times> nat) list \<Rightarrow>
   store_call list \<Rightarrow> ImageView \<Rightarrow> store_call list \<times> (read_failure + ImageView)" where
  "gather_children pf col row level transaction_id [] calls super = (calls, Inr super)"
| "gather_children pf col row level transaction_id ((i, j) # rest) calls super =
     (let tile_size = default_tile_size pf;
          child_col = 2 * col + of_nat i;
          child_row = 2 * row + of_nat j;
          calls = calls @ [Read_call child_col child_row (level + 1) transaction_id True]
      in case read pf child_col child_row (level + 1) transaction_id True of
           Inr child \<Rightarrow>
             gather_children pf col row level transaction_id rest calls
               (crop_assign super (tile_size * i) (tile_size * j) tile_size tile_size child)
         | Inl TileNotFoundErr \<Rightarrow>
             gather_children pf col row level transaction_id rest calls super
         | Inl e \<Rightarrow> (calls, Inl e))"

text \<open>\<open>j\<close> is the outer loop and \<open>i\<close> the inner one.\<close>

definition children :: "(nat \<times> nat) list" where
  "children = [(0, 0), (1, 0), (0, 1), (1, 1)]"

definition downsample :: "bool \<Rightarrow> ImageView \<Rightarrow> ImageView" where
  "downsample preblur super =
     (if preblur then subsample (separable_convolution_filter super) 2
      else subsample super 2)"

text \<open>
  Lines 107 to 128 of \<^verbatim>\<open>generate_mipmap_tile\<close>: the canvas \<^verbatim>\<open>super\<close> and
  the loop over the four children, from an empty log of calls.
\<close>

definition read_children ::
  "PolarStereoPlateManager \<Rightarrow> int32 \<Rightarrow> int32 \<Rightarrow> int32 \<Rightarrow> TransactionOrNeg \<Rightarrow>
   store_call list \<times> (read_failure + ImageView)" where
  "read_children this col row level transaction_id =
     (let tile_size = default_tile_size (m_platefile this);
          super = ImageView_new (2 * tile_size) (2 * tile_size)
      in gather_children (m_platefile this) col row level transaction_id children [] super)"

text \<open>
  \<^verbatim>\<open>generate_mipmap_tile\<close>, lines 103 to 147: the calls made on the platefile
  and either the exception that left the function or the normal return.
\<close>

definition generate_mipmap_tile ::
  "PolarStereoPlateManager \<Rightarrow> int32 \<Rightarrow> int32 \<Rightarrow> int32 \<Rightarrow> TransactionOrNeg \<Rightarrow> bool \<Rightarrow>
   store_call list \<times> (read_failure + unit)" where
  "generate_mipmap_tile this col row level transaction_id preblur =
     (case read_children this col row level transaction_id of
        (calls, Inl e) \<Rightarrow> (calls, Inl e)
      | (calls, Inr super) \<Rightarrow>
          (let new_tile = downsample preblur super
           in if \<not> is_transparent new_tile
              then (calls @ [Write_update_call new_tile col row level transaction_id], Inr ())
              else (calls, Inr ())))"

text \<open>
  Vocabulary for the statements about the synthesizer: the read of the child
  \<open>(i, j)\<close> and the call it is logged as, the column, row and level of a call
  as integers, a failure other than "not found", a write among the calls, the
  effect of one loop iteration on the canvas, and the pixels of the quadrant
  \<open>(i, j)\<close> of an image whose quadrants have the side \<open>n\<close>.
\<close>

definition child_read ::
  "PlateFile \<Rightarrow> int32 \<Rightarrow> int32 \<Rightarrow> int32 \<Rightarrow> TransactionOrNeg \<Rightarrow> nat \<times> nat \<Rightarrow> read_failure + ImageView" where
  "child_read pf col row level transaction_id ij =
     read pf (2 * col + of_nat (fst ij)) (2 * row + of_nat (snd ij)) (level + 1) transaction_id True"

definition child_call :: "int32 \<Rightarrow> int32 \<Rightarrow> int32 \<Rightarrow> TransactionOrNeg \<Rightarrow> nat \<times> nat \<Rightarrow> store_call" where
  "child_call col row level transaction_id ij =
     Read_call (2 * col + of_nat (fst ij)) (2 * row + of_nat (snd ij)) (level + 1) transaction_id True"

definition call_coords :: "store_call \<Rightarrow> int \<times> int \<times> int" where
  "call_coords c =
     (case c of
        Read_call col row level transaction_id exact \<Rightarrow> (sint col, sint row, sint level)
      | Write_update_call tile col row level transaction_id \<Rightarrow> (sint col, sint row, sint level))"

fun fatal :: "read_failure + ImageView \<Rightarrow> bool" where
  "fatal (Inr child) = False"
| "fatal (Inl TileNotFoundErr) = False"
| "fatal (Inl e) = True"

fun is_write :: "store_call \<Rightarrow> bool" where
  "is_write (Write_update_call tile col row level transaction_id) = True"
| "is_write (Read_call col row level transaction_id exact) = False"

definition place ::
  "PlateFile \<Rightarrow> int32 \<Rightarrow> int32 \<Rightarrow> int32 \<Rightarrow> TransactionOrNeg \<Rightarrow> ImageView \<Rightarrow> nat \<times> nat \<Rightarrow> ImageView" where
  "place pf col row level transaction_id super ij =
     (case child_read pf col row level transaction_id ij of
        Inr child \<Rightarrow>
          crop_assign super (default_tile_size pf * fst ij) (default_tile_size pf * snd ij)
            (default_tile_size pf) (default_tile_size pf) child
      | Inl e \<Rightarrow> super)"

definition in_quadrant :: "nat \<Rightarrow> nat \<times> nat \<Rightarrow> nat \<Rightarrow> nat \<Rightarrow> bool" where
  "in_quadrant n ij x y =
     (n * fst ij \<le> x \<and> x < n * fst ij + n \<and> n * snd ij \<le> y \<and> y < n * snd ij + n)"

subsection \<open>Inputs for the examples\<close>

text \<open>A platefile of a given tile size that holds no tile, and a unit sphere.\<close>

definition absent_read ::
  "int32 \<Rightarrow> int32 \<Rightarrow> int32 \<Rightarrow> TransactionOrNeg \<Rightarrow> bool \<Rightarrow> read_failure + ImageView" where
  "absent_read c r l t e = Inl TileNotFoundErr"

definition empty_platefile :: "nat \<Rightarrow> PlateFile" where
  "empty_platefile n = \<lparr>default_tile_size = n, read = absent_read\<rparr>"

definition manager_of :: "PlateFile \<Rightarrow> PolarStereoPlateManager" where
  "manager_of pf = \<lparr>m_platefile = pf\<rparr>"

definition unit_datum :: Datum where
  "unit_datum = \<lparr>datum_name = ''unit sphere'', semi_major_axis = 1\<rparr>"

text \<open>
  A source georeference whose latitude is the pixel row plus a shift, and a
  forward map that scales columns by \<open>1/1000\<close> and rows by \<open>1/500\<close>.
\<close>

definition shifted_lonlat :: "real \<Rightarrow> GeoReference \<Rightarrow> Vector2 \<Rightarrow> Vector2" where
  "shifted_lonlat s g p = (fst p, snd p + s)"

definition scale_forward :: "GeoReference \<Rightarrow> GeoReference \<Rightarrow> Vector2 \<Rightarrow> Vector2" where
  "scale_forward g g' p = (fst p / 1000, snd p / 500)"

text \<open>
  Two logarithms: the exact one, and the one rounded to the nearest multiple of
  \<open>2\<^sup>-\<^sup>4\<^sup>9\<close>, the distance between neighbouring doubles from 8 to 16: no
  double is closer to the exact logarithm there.
\<close>

definition exact_log2 :: "real \<Rightarrow> real" where
  "exact_log2 x = log 2 x"

definition rounded_log2 :: "real \<Rightarrow> real" where
  "rounded_log2 x = real_of_int (round (log 2 x * 2 ^ 49)) / 2 ^ 49"

text \<open>
  A datum of radius 128 and a forward map under which one source pixel covers
  \<open>2\<^sup>-\<^sup>8 - 2\<^sup>-\<^sup>6\<^sup>1\<close> in each direction, the double just below \<open>2\<^sup>-\<^sup>8\<close>.
\<close>

definition small_datum :: Datum where
  "small_datum = \<lparr>datum_name = ''radius 128'', semi_major_axis = 128\<rparr>"

definition fine_spacing :: real where
  "fine_spacing = 1 / 2 ^ 8 - 1 / 2 ^ 61"

definition fine_forward :: "GeoReference \<Rightarrow> GeoReference \<Rightarrow> Vector2 \<Rightarrow> Vector2" where
  "fine_forward g g' p = (fst p * fine_spacing, snd p * fine_spacing)"

text \<open>A datum constructor that gives every name the radius 2.\<close>

definition sphere_datum_of :: "string \<Rightarrow> Datum" where
  "sphere_datum_of n = \<lparr>datum_name = n, semi_major_axis = 2\<rparr>"

text \<open>
  A tile whose pixels are all valid; a platefile that holds this tile at column 1,
  row 0 and nothing else; a platefile whose read at column 1, row 0 fails with an
  input/output error and that holds the tile at column 0, row 0.
\<close>

definition opaque_pixel :: PixelGrayA where
  "opaque_pixel = \<lparr>px_v = 5, px_a = 1\<rparr>"

definition opaque_pixels :: "nat \<Rightarrow> nat \<Rightarrow> PixelGrayA" where
  "opaque_pixels x y = opaque_pixel"

definition opaque_tile :: "nat \<Rightarrow> ImageView" where
  "opaque_tile n = \<lparr>cols = n, rows = n, pixel = opaque_pixels\<rparr>"

definition one_child_read ::
  "nat \<Rightarrow> int32 \<Rightarrow> int32 \<Rightarrow> int32 \<Rightarrow> TransactionOrNeg \<Rightarrow> bool \<Rightarrow> read_failure + ImageView" where
  "one_child_read n c r l t e =
     (if c = 1 \<and> r = 0 then Inr (opaque_tile n) else Inl TileNotFoundErr)"

definition one_child_platefile :: "nat \<Rightarrow> PlateFile" where
  "one_child_platefile n = \<lparr>default_tile_size = n, read = one_child_read n\<rparr>"

definition failing_read ::
  "nat \<Rightarrow> int32 \<Rightarrow> int32 \<Rightarrow> int32 \<Rightarrow> TransactionOrNeg \<Rightarrow> bool \<Rightarrow> read_failure + ImageView" where
  "failing_read n c r l t e =
     (if c = 1 \<and> r = 0 then Inl (IOErr ''disk'')
      else if c = 0 \<and> r = 0 then Inr (opaque_tile n)
      else Inl TileNotFoundErr)"

definition failing_platefile :: "nat \<Rightarrow> PlateFile" where
  "failing_platefile n = \<lparr>default_tile_size = n, read = failing_read n\<rparr>"





section \<open>Properties\<close>

lemma georeference_fields:
  "datum (georeference this level north_pole d) = d"
  "projection (georeference this level north_pole d) =
     Stereographic (if north_pole then 90 else -90) 0 1 0 0"
  "transform (georeference this level north_pole d) (0, 0) =
     2 * semi_major_axis d / (256 * 2 powr real_of_int level)"
  "transform (georeference this level north_pole d) (1, 1) =
     - (2 * semi_major_axis d / (256 * 2 powr real_of_int level))"
  "transform (georeference this level north_pole d) (0, 2) = - semi_major_axis d"
  "transform (georeference this level north_pole d) (1, 2) = semi_major_axis d"
  by (simp_all add: georeference_def Let_def set_transform_def set_stereographic_def
      GeoReference_of_def)

lemma georeference_other_entries:
  "(i, j) \<notin> {(0, 0), (1, 1), (0, 2), (1, 2)} \<Longrightarrow>
   transform (georeference this level north_pole d) (i, j) = identity_matrix (i, j)"
  by (auto simp add: georeference_def Let_def set_transform_def set_stereographic_def
      GeoReference_of_def)

subsection \<open>The georeference builder\<close>

text \<open>
  C3, as stated, read with \<open>tile_size\<close> the tile size of the store (the spec:
  "side = store's configured tile size"): the pixel spacing would be
  \<open>2\<cdot>R / (tile_size \<cdot> 2^level)\<close>. For a store with tiles of side 512, level 0 and
  the unit sphere the builder's spacing is \<open>1/128\<close>, not \<open>1/256\<close>.
\<close>

theorem georeference_tile_size_counterexample:
  "pixel_spacing (georeference (manager_of (empty_platefile 512)) 0 True unit_datum) \<noteq>
     2 * semi_major_axis unit_datum /
       (real (default_tile_size (m_platefile (manager_of (empty_platefile 512)))) * 2 ^ nat 0)"
  by (simp add: pixel_spacing_def georeference_fields unit_datum_def manager_of_def
      empty_platefile_def)

text \<open>
  C3, amended: for every level \<open>\<ge> 0\<close>, pole flag and datum with positive semi-major
  axis \<open>R\<close>, \<^verbatim>\<open>georeference(level, north_pole, datum)\<close> is a stereographic
  projection centred at latitude \<open>+90\<close> (north) or \<open>-90\<close> (south), longitude 0,
  scale 1, whose affine transform has the x spacing \<open>2\<cdot>R / (256 \<cdot> 2^level)\<close> with
  the constant 256, the negated spacing in y, the origin \<open>(-R, +R)\<close> and the
  identity elsewhere.
\<close>

theorem georeference_descriptor:
  "0 \<le> level \<Longrightarrow> 0 < semi_major_axis d \<Longrightarrow>
   projection (georeference this level north_pole d) =
     Stereographic (if north_pole then 90 else -90) 0 1 0 0 \<and>
   datum (georeference this level north_pole d) = d \<and>
   transform (georeference this level north_pole d) (0, 0) =
     2 * semi_major_axis d / (256 * 2 ^ nat level) \<and>
   transform (georeference this level north_pole d) (1, 1) =
     - (2 * semi_major_axis d / (256 * 2 ^ nat level)) \<and>
   transform (georeference this level north_pole d) (0, 2) = - semi_major_axis d \<and>
   transform (georeference this level north_pole d) (1, 2) = semi_major_axis d \<and>
   transform (georeference this level north_pole d) (0, 1) = 0 \<and>
   transform (georeference this level north_pole d) (1, 0) = 0 \<and>
   transform (georeference this level north_pole d) (2, 0) = 0 \<and>
   transform (georeference this level north_pole d) (2, 1) = 0 \<and>
   transform (georeference this level north_pole d) (2, 2) = 1"
proof -
  assume l: "0 \<le> level" and "0 < semi_major_axis d"
  have p: "2 powr real_of_int level = 2 ^ nat level"
    using l by (simp add: powr_real_of_int)
  show ?thesis
    by (simp add: georeference_def Let_def set_transform_def set_stereographic_def
        GeoReference_of_def identity_matrix_def p)
qed

text \<open>C3, amended, at level 3 on the south pole of the unit sphere, tile size 512.\<close>

theorem georeference_descriptor_witness:
  "(0 :: int) \<le> 3 \<and> 0 < semi_major_axis unit_datum \<and>
   transform (georeference (manager_of (empty_platefile 512)) 3 False unit_datum) (0, 0) = 1 / 1024 \<and>
   transform (georeference (manager_of (empty_platefile 512)) 3 False unit_datum) (1, 1) = - 1 / 1024 \<and>
   transform (georeference (manager_of (empty_platefile 512)) 3 False unit_datum) (0, 2) = - 1 \<and>
   transform (georeference (manager_of (empty_platefile 512)) 3 False unit_datum) (1, 2) = 1 \<and>
   projection (georeference (manager_of (empty_platefile 512)) 3 False unit_datum) =
     Stereographic (- 90) 0 1 0 0"
  using georeference_descriptor [of 3 unit_datum "manager_of (empty_platefile 512)" False]
  by (simp add: unit_datum_def)

text \<open>
  C8: for every level, \<^verbatim>\<open>georeference(level)\<close> is the three-argument builder
  called with the north pole (and the datum WGS84); its projection is centred at
  latitude \<open>+90\<close>, and it does not depend on the manager or its platefile, the
  only place where the pyramid's data could come from.
\<close>

theorem georeference_level_is_north:
  "georeference_level Datum_of this level = georeference this level True (Datum_of ''WGS84'') \<and>
   projection (georeference_level Datum_of this level) = Stereographic 90 0 1 0 0 \<and>
   georeference_level Datum_of this level = georeference_level Datum_of that level"
  by (simp add: georeference_level_def georeference_def Let_def set_transform_def
      set_stereographic_def GeoReference_of_def)

text \<open>C8 at level 5, for two stores of different tile sizes.\<close>

theorem georeference_level_is_north_witness:
  "georeference_level sphere_datum_of (manager_of (empty_platefile 256)) 5 =
     georeference (manager_of (empty_platefile 256)) 5 True (sphere_datum_of ''WGS84'') \<and>
   projection (georeference_level sphere_datum_of (manager_of (empty_platefile 256)) 5) =
     Stereographic 90 0 1 0 0 \<and>
   georeference_level sphere_datum_of (manager_of (empty_platefile 256)) 5 =
     georeference_level sphere_datum_of (manager_of (empty_platefile 512)) 5"
  using georeference_level_is_north [of sphere_datum_of "manager_of (empty_platefile 256)" 5
      "manager_of (empty_platefile 512)"]
  by blast

text \<open>
  C9: for every level and every manager, the datum of \<^verbatim>\<open>georeference(level)\<close>
  is \<^verbatim>\<open>Datum("WGS84")\<close>, and its pixel spacing and affine origin are computed
  from the semi-major axis of that datum. Nothing of the manager, the pyramid or
  a source image enters.
\<close>

theorem georeference_level_datum:
  "datum (georeference_level Datum_of this level) = Datum_of ''WGS84'' \<and>
   pixel_spacing (georeference_level Datum_of this level) =
     2 * semi_major_axis (Datum_of ''WGS84'') / (256 * 2 powr real_of_int level) \<and>
   transform (georeference_level Datum_of this level) (1, 1) =
     - (2 * semi_major_axis (Datum_of ''WGS84'') / (256 * 2 powr real_of_int level)) \<and>
   transform (georeference_level Datum_of this level) (0, 2) = - semi_major_axis (Datum_of ''WGS84'') \<and>
   transform (georeference_level Datum_of this level) (1, 2) = semi_major_axis (Datum_of ''WGS84'')"
  unfolding georeference_level_def pixel_spacing_def
  using georeference_fields [of this level True "Datum_of ''WGS84''"] by simp

text \<open>C9 at level 0 with a datum constructor of radius 2: spacing \<open>4/256\<close>.\<close>

theorem georeference_level_datum_witness:
  "datum (georeference_level sphere_datum_of (manager_of (empty_platefile 512)) 0) =
     \<lparr>datum_name = ''WGS84'', semi_major_axis = 2\<rparr> \<and>
   pixel_spacing (georeference_level sphere_datum_of (manager_of (empty_platefile 512)) 0) = 1 / 64 \<and>
   transform (georeference_level sphere_datum_of (manager_of (empty_platefile 512)) 0) (0, 2) = - 2 \<and>
   transform (georeference_level sphere_datum_of (manager_of (empty_platefile 512)) 0) (1, 2) = 2"
  using georeference_level_datum [of sphere_datum_of "manager_of (empty_platefile 512)" 0]
  by (simp add: sphere_datum_of_def)

subsection \<open>The placement selector\<close>

lemma count_north_filter:
  "count_north lonlat ps n = n + length (filter (\<lambda>p. 0 < snd (lonlat p)) ps)"
  by (induction ps arbitrary: n) simp_all

lemma is_north_of_filter:
  "is_north_of ll georef img =
     (2 < length (filter (\<lambda>p. 0 < snd (ll georef p)) (test_points img)))"
  by (simp add: is_north_of_def count_north_filter)

lemma norm_2_nonneg: "0 \<le> norm_2 p"
  by (simp add: norm_2_def)

lemma local_spacing_nonneg: "0 \<le> local_spacing forward p"
  by (simp add: local_spacing_def Let_def norm_2_nonneg)

lemma norm_2_vsub: "norm_2 (vsub p q) = displacement_magnitude p q"
  by (simp add: norm_2_def vsub_def displacement_magnitude_def power2_eq_square)

lemma local_spacing_explicit: "local_spacing forward p = local_spacing_spec forward p"
  by (simp add: local_spacing_def local_spacing_spec_def Let_def norm_2_vsub vadd_def)

lemma test_points_explicit:
  "test_points img =
     [(real (cols img div 2), real (rows img div 2)),
      (real (3 * cols img div 4), real (rows img div 2)),
      (real (cols img div 4), real (rows img div 2)),
      (real (cols img div 2), real (3 * rows img div 4)),
      (real (cols img div 2), real (rows img div 4))]"
  by (simp add: test_points_def mult.commute)

lemma nominal_georef_explicit:
  "nominal_georef d is_north =
     \<lparr>datum = d, projection = Stereographic (if is_north then 90 else - 90) 0 1 0 0,
      transform = (\<lambda>(i, j). if i = j then 1 else 0)
        ((1, 1) := - 1, (0, 2) := - semi_major_axis d, (1, 2) := semi_major_axis d)\<rparr>"
  by (simp add: nominal_georef_def Let_def GeoReference_of_def set_stereographic_def
      set_transform_def identity_matrix_def)

lemma sample_spacings_explicit:
  "sample_spacings ll gf georef img =
     map (local_spacing_spec (gf georef
            \<lparr>datum = datum georef,
             projection = Stereographic
               (if 2 < length (filter (\<lambda>p. 0 < snd (ll georef p))
                     [(real (cols img div 2), real (rows img div 2)),
                      (real (3 * cols img div 4), real (rows img div 2)),
                      (real (cols img div 4), real (rows img div 2)),
                      (real (cols img div 2), real (3 * rows img div 4)),
                      (real (cols img div 2), real (rows img div 4))])
                then 90 else - 90) 0 1 0 0,
             transform = (\<lambda>(i, j). if i = j then 1 else 0)
               ((1, 1) := - 1, (0, 2) := - semi_major_axis (datum georef),
                (1, 2) := semi_major_axis (datum georef))\<rparr>))
       [(real (cols img div 2), real (rows img div 2)),
        (real (3 * cols img div 4), real (rows img div 2)),
        (real (cols img div 4), real (rows img div 2)),
        (real (cols img div 2), real (3 * rows img div 4)),
        (real (cols img div 2), real (rows img div 4))]"
proof -
  have l: "local_spacing forward = local_spacing_spec forward" for forward
    by (rule ext) (rule local_spacing_explicit)
  show ?thesis
    unfolding sample_spacings_def is_north_of_filter nominal_georef_explicit l
    by (simp only: test_points_explicit)
qed

lemma resolution_loop_PosInf: "resolution_loop forward ps PosInf = PosInf"
  by (induction ps) simp_all

lemma resolution_loop_zero:
  "\<exists>p\<in>set ps. local_spacing forward p = 0 \<Longrightarrow> resolution_loop forward ps x = PosInf"
proof (induction ps arbitrary: x)
  case Nil
  then show ?case by simp
next
  case (Cons p ps)
  show ?case
  proof (cases "local_spacing forward p = 0")
    case True
    then have "i_resolution forward p = PosInf" by (simp add: i_resolution_def xdiv_def)
    then show ?thesis by (cases x) (simp_all add: resolution_loop_PosInf)
  next
    case False
    with Cons.prems have "\<exists>p\<in>set ps. local_spacing forward p = 0" by simp
    then show ?thesis using Cons.IH by simp
  qed
qed

lemma Max_insert_max:
  "finite S \<Longrightarrow> Max (insert (max r i) S) = Max (insert r (insert i S))" for r i :: real
  by (cases "S = {}") (simp_all add: max.assoc)

lemma resolution_loop_finite:
  "\<forall>p\<in>set ps. local_spacing forward p \<noteq> 0 \<Longrightarrow>
   resolution_loop forward ps (Finite r) =
     Finite (Max (insert r ((\<lambda>m. 1 / m) ` set (map (local_spacing forward) ps))))"
proof (induction ps arbitrary: r)
  case Nil
  then show ?case by simp
next
  case (Cons p ps)
  let ?i = "1 / local_spacing forward p"
  let ?S = "(\<lambda>m. 1 / m) ` set (map (local_spacing forward) ps)"
  have i: "i_resolution forward p = Finite ?i"
    using Cons.prems by (simp add: i_resolution_def xdiv_def)
  have "resolution_loop forward (p # ps) (Finite r) =
        resolution_loop forward ps (Finite (max r ?i))"
    by (simp add: i max_def)
  also have "\<dots> = Finite (Max (insert (max r ?i) ?S))"
    using Cons.prems by (intro Cons.IH) simp
  also have "Max (insert (max r ?i) ?S) = Max (insert r (insert ?i ?S))"
    by (rule Max_insert_max) simp
  finally show ?case by simp
qed

lemma requested_resolution_finite:
  assumes R: "semi_major_axis (datum georef) \<noteq> 0"
    and m: "\<forall>m\<in>set (sample_spacings ll gf georef img). m \<noteq> 0"
  shows "requested_resolution ll gf georef img =
     Finite (requested_pixels_per_meter_spec 256 (semi_major_axis (datum georef))
               (sample_spacings ll gf georef img))"
proof -
  have "\<forall>p\<in>set (test_points img).
          local_spacing (gf georef (nominal_georef (datum georef) (is_north_of ll georef img))) p \<noteq> 0"
    using m by (simp add: sample_spacings_def)
  from resolution_loop_finite [OF this] R show ?thesis
    by (simp add: requested_resolution_def Let_def xdiv_def requested_pixels_per_meter_spec_def
        sample_spacings_def)
qed

lemma requested_resolution_infinite:
  assumes "\<exists>m\<in>set (sample_spacings ll gf georef img). m = 0"
  shows "requested_resolution ll gf georef img = PosInf"
proof -
  have "\<exists>p\<in>set (test_points img).
          local_spacing (gf georef (nominal_georef (datum georef) (is_north_of ll georef img))) p = 0"
    using assms by (auto simp add: sample_spacings_def)
  from resolution_loop_zero [OF this] show ?thesis
    by (simp add: requested_resolution_def Let_def)
qed

lemma requested_spec_ge_seed:
  "ts / (2 * R) \<le> requested_pixels_per_meter_spec ts R ms"
  by (simp add: requested_pixels_per_meter_spec_def)

lemma requested_spec_ge_sample:
  "m \<in> set ms \<Longrightarrow> 1 / m \<le> requested_pixels_per_meter_spec ts R ms"
  by (simp add: requested_pixels_per_meter_spec_def)

lemma log_argument_ge_1:
  assumes "0 < R"
  shows "1 \<le> log_argument (requested_pixels_per_meter_spec 256 R ms) R"
proof -
  have "256 / (2 * R) \<le> requested_pixels_per_meter_spec 256 R ms"
    by (rule requested_spec_ge_seed)
  then have "256 / (2 * R) * (2 * R) \<le> requested_pixels_per_meter_spec 256 R ms * (2 * R)"
    using assms by (intro mult_right_mono) simp_all
  then show ?thesis using assms by (simp add: log_argument_def)
qed

lemma fit_level_finite:
  assumes "0 < R"
  shows "fit_level lg (Finite (requested_pixels_per_meter_spec 256 R ms)) R =
           numeric_cast_int \<lceil>lg (log_argument (requested_pixels_per_meter_spec 256 R ms) R)\<rceil>"
proof -
  have "0 < log_argument (requested_pixels_per_meter_spec 256 R ms) R"
    using log_argument_ge_1 [OF assms, of ms] by linarith
  then show ?thesis
    by (simp add: fit_level_def)
qed

lemma transform_image_finite:
  assumes R: "0 < semi_major_axis (datum georef)"
    and m: "\<forall>m\<in>set (sample_spacings ll gf georef img). m \<noteq> 0"
  shows "transform_image lg ll gf this georef img =
     (case numeric_cast_int
             \<lceil>lg (log_argument
                   (requested_pixels_per_meter_spec 256 (semi_major_axis (datum georef))
                      (sample_spacings ll gf georef img))
                   (semi_major_axis (datum georef)))\<rceil> of
        Inl e \<Rightarrow> Inl e
      | Inr l \<Rightarrow> Inr \<lparr>placed_level = l, placed_north = is_north_of ll georef img,
                       placed_georef = georeference this l (is_north_of ll georef img) (datum georef)\<rparr>)"
proof -
  have "semi_major_axis (datum georef) \<noteq> 0" using R by simp
  from requested_resolution_finite [OF this m] fit_level_finite [OF R]
  show ?thesis by (simp add: transform_image_def Let_def)
qed

lemma transform_image_Inr:
  assumes R: "0 < semi_major_axis (datum georef)"
    and res: "transform_image lg ll gf this georef img = Inr res"
  shows "(\<forall>m\<in>set (sample_spacings ll gf georef img). m \<noteq> 0) \<and>
     placed_level res =
       \<lceil>lg (log_argument
             (requested_pixels_per_meter_spec 256 (semi_major_axis (datum georef))
                (sample_spacings ll gf georef img))
             (semi_major_axis (datum georef)))\<rceil> \<and>
     placed_north res = is_north_of ll georef img \<and>
     placed_georef res = georeference this (placed_level res) (placed_north res) (datum georef)"
proof -
  have m: "\<forall>m\<in>set (sample_spacings ll gf georef img). m \<noteq> 0"
  proof (rule ccontr)
    assume "\<not> ?thesis"
    then have "\<exists>m\<in>set (sample_spacings ll gf georef img). m = 0" by simp
    from requested_resolution_infinite [OF this] R res show False
      by (simp add: transform_image_def Let_def fit_level_def)
  qed
  from transform_image_finite [OF R m, of lg this] res show ?thesis
    using m by (auto simp: numeric_cast_int_def split: if_splits)
qed



lemma norm_2_axis: "0 \<le> x \<Longrightarrow> norm_2 (x, 0) = x" "0 \<le> x \<Longrightarrow> norm_2 (0, x) = x"
  by (simp_all add: norm_2_def)

lemma local_spacing_scale_forward: "local_spacing (scale_forward g g') p = 1 / 1000"
proof -
  have x: "vsub (scale_forward g g' (vadd p (1, 0))) (scale_forward g g' p) = (1 / 1000, 0)"
    by (simp add: vsub_def vadd_def scale_forward_def add_divide_distrib)
  have y: "vsub (scale_forward g g' (vadd p (0, 1))) (scale_forward g g' p) = (0, 1 / 500)"
    by (simp add: vsub_def vadd_def scale_forward_def add_divide_distrib)
  show ?thesis
    by (simp add: local_spacing_def Let_def x y norm_2_axis)
qed

lemma local_spacing_spec_scale_forward: "local_spacing_spec (scale_forward g g') p = 1 / 1000"
  by (simp only: local_spacing_explicit [symmetric] local_spacing_scale_forward)

lemma sample_spacings_scale_forward:
  "sample_spacings ll scale_forward georef img = [1 / 1000, 1 / 1000, 1 / 1000, 1 / 1000, 1 / 1000]"
  by (simp add: sample_spacings_def test_points_def local_spacing_scale_forward)

lemma ceiling_log2:
  assumes "2 ^ n < x" "x \<le> 2 ^ Suc n"
  shows "\<lceil>log 2 x\<rceil> = int (Suc n)"
proof (rule ceiling_unique)
  have "(0::real) < 2 ^ n" by simp
  then have x0: "0 < x" using assms(1) by linarith
  have "2 powr real n < x" using assms(1) by (simp add: powr_realpow)
  then have "real n < log 2 x" using x0 by (simp add: less_log_iff)
  then show "real_of_int (int (Suc n)) - 1 < log 2 x" by simp
  have "(2::real) powr real (Suc n) = 2 ^ Suc n" by (rule powr_realpow) simp
  then have "x \<le> 2 powr real (Suc n)" using assms(2) by (simp only:)
  then have "log 2 x \<le> real (Suc n)" using x0 by (simp add: log_le_iff)
  then show "log 2 x \<le> real_of_int (int (Suc n))" by simp
qed

lemma exact_log2_example: "\<lceil>exact_log2 (125 / 16)\<rceil> = 3"
  using ceiling_log2 [of 2 "125 / 16"] by (simp add: exact_log2_def)


lemma transform_image_example:
  "transform_image exact_log2 ll scale_forward this (GeoReference_of unit_datum) img =
     Inr \<lparr>placed_level = 3, placed_north = is_north_of ll (GeoReference_of unit_datum) img,
          placed_georef = georeference this 3 (is_north_of ll (GeoReference_of unit_datum) img) unit_datum\<rparr>"
proof -
  have R: "0 < semi_major_axis (datum (GeoReference_of unit_datum))"
    by (simp add: GeoReference_of_def unit_datum_def)
  have m: "\<forall>m\<in>set (sample_spacings ll scale_forward (GeoReference_of unit_datum) img). m \<noteq> 0"
    by (simp add: sample_spacings_scale_forward)
  have d: "semi_major_axis (datum (GeoReference_of unit_datum)) = 1"
    "datum (GeoReference_of unit_datum) = unit_datum"
    by (simp_all add: GeoReference_of_def unit_datum_def)
  have u: "semi_major_axis unit_datum = 1" by (simp add: unit_datum_def)
  have a: "log_argument (requested_pixels_per_meter_spec 256 1
      [1 / 1000, 1 / 1000, 1 / 1000, 1 / 1000, 1 / 1000]) 1 = 125 / 16"
    by (simp add: log_argument_def requested_pixels_per_meter_spec_def)
  have "transform_image exact_log2 ll scale_forward this (GeoReference_of unit_datum) img =
     (case numeric_cast_int 3 of
        Inl e \<Rightarrow> Inl e
      | Inr l \<Rightarrow> Inr \<lparr>placed_level = l, placed_north = is_north_of ll (GeoReference_of unit_datum) img,
                       placed_georef = georeference this l (is_north_of ll (GeoReference_of unit_datum) img)
                         unit_datum\<rparr>)"
    using transform_image_finite [OF R m, of exact_log2 this]
    by (simp only: d u sample_spacings_scale_forward a exact_log2_example)
  then show ?thesis
    by (simp add: numeric_cast_int_def)
qed




lemma fine_spacing_pos: "0 < fine_spacing"
  by (simp add: fine_spacing_def)

lemma local_spacing_fine_forward: "local_spacing (fine_forward g g') p = fine_spacing"
proof -
  have x: "vsub (fine_forward g g' (vadd p (1, 0))) (fine_forward g g' p) = (fine_spacing, 0)"
    by (simp add: vsub_def vadd_def fine_forward_def algebra_simps)
  have y: "vsub (fine_forward g g' (vadd p (0, 1))) (fine_forward g g' p) = (0, fine_spacing)"
    by (simp add: vsub_def vadd_def fine_forward_def algebra_simps)
  from fine_spacing_pos have "0 \<le> fine_spacing" by simp
  then show ?thesis
    by (simp add: local_spacing_def Let_def x y norm_2_axis)
qed

lemma sample_spacings_fine_forward:
  "sample_spacings ll fine_forward georef img =
     [fine_spacing, fine_spacing, fine_spacing, fine_spacing, fine_spacing]"
  by (simp add: sample_spacings_def test_points_def local_spacing_fine_forward)

lemma ln_2_gt_half: "1 / 2 < ln (2::real)"
proof -
  have "exp (1 / 2) * exp (1 / 2) = exp (1::real)"
    by (simp add: exp_add [symmetric])
  then have s: "exp (1 / 2 :: real) * exp (1 / 2) \<le> 3" using exp_le by simp
  have "exp (1 / 2 :: real) < 2"
  proof (rule ccontr)
    assume "\<not> exp (1 / 2 :: real) < 2"
    then have "2 \<le> exp (1 / 2 :: real)" by simp
    then have "2 * 2 \<le> exp (1 / 2 :: real) * exp (1 / 2)" by (intro mult_mono) simp_all
    with s show False by simp
  qed
  then have "exp (1 / 2 :: real) < exp (ln 2)" by simp
  then show ?thesis by (simp only: exp_less_cancel_iff)
qed

lemma log2_one_plus:
  assumes "0 < t"
  shows "0 < log 2 (1 + t)" "log 2 (1 + t) < 2 * t"
proof -
  have "0 < ln (1 + t)" using assms by (intro ln_gt_zero) simp
  then show "0 < log 2 (1 + t)" by (simp add: log_def)
  have a: "ln (1 + t) \<le> t" using assms by (intro ln_add_one_self_le_self) simp
  have "1 < 2 * ln (2::real)" using ln_2_gt_half by simp
  then have "t * 1 < t * (2 * ln 2)" using assms by (intro mult_strict_left_mono)
  with a have "ln (1 + t) < 2 * t * ln 2" by (simp add: mult_ac)
  then show "log 2 (1 + t) < 2 * t" by (simp add: log_def pos_divide_less_eq)
qed

lemma log2_fine:
  "8 \<le> log 2 (2 ^ 61 / (2 ^ 53 - 1))" "log 2 (2 ^ 61 / (2 ^ 53 - 1)) < 8 + 1 / 2 ^ 51"
proof -
  define t :: real where "t = 1 / (2 ^ 53 - 1)"
  have t: "0 < t" by (simp add: t_def)
  have e: "(2 ^ 61 / (2 ^ 53 - 1) :: real) = 2 ^ 8 * (1 + t)" by (simp add: t_def)
  have "log 2 (2 ^ 8 * (1 + t)) = log 2 (2 ^ 8) + log 2 (1 + t)"
    using t by (intro log_mult_pos) simp_all
  also have "log 2 (2 ^ 8 :: real) = 8" using log_pow_cancel [of "2::real" 8] by simp
  finally have l: "log 2 (2 ^ 61 / (2 ^ 53 - 1)) = 8 + log 2 (1 + t)" by (simp only: e)
  have "2 * t < 1 / 2 ^ 51" by (simp add: t_def)
  with log2_one_plus(2) [OF t] have q: "log 2 (1 + t) < 1 / 2 ^ 51" by (rule less_trans)
  from l log2_one_plus(1) [OF t] show "8 \<le> log 2 (2 ^ 61 / (2 ^ 53 - 1))" by simp
  from l q show "log 2 (2 ^ 61 / (2 ^ 53 - 1)) < 8 + 1 / 2 ^ 51" by simp
qed

lemma rounded_log2_fine: "rounded_log2 (2 ^ 61 / (2 ^ 53 - 1)) = 8"
proof -
  let ?l = "log 2 (2 ^ 61 / (2 ^ 53 - 1)) :: real"
  have "round (?l * 2 ^ 49) = 8 * 2 ^ 49"
  proof (rule round_unique)
    have "?l * 2 ^ 49 < (8 + 1 / 2 ^ 51) * 2 ^ 49"
      using log2_fine(2) by (simp only: mult_less_cancel_right_pos zero_less_power zero_less_numeral)
    then show "?l * 2 ^ 49 - 1 / 2 < real_of_int (8 * 2 ^ 49)" by simp
    have "8 * 2 ^ 49 \<le> ?l * 2 ^ 49"
      using log2_fine(1) by (simp only: mult_le_cancel_right_pos zero_less_power zero_less_numeral)
    then show "real_of_int (8 * 2 ^ 49) \<le> ?l * 2 ^ 49 + 1 / 2" by simp
  qed
  then show ?thesis by (simp add: rounded_log2_def)
qed

lemma transform_image_fine:
  "transform_image rounded_log2 ll fine_forward this (GeoReference_of small_datum) img =
     Inr \<lparr>placed_level = 8, placed_north = is_north_of ll (GeoReference_of small_datum) img,
          placed_georef = georeference this 8 (is_north_of ll (GeoReference_of small_datum) img)
            small_datum\<rparr>"
proof -
  have R: "0 < semi_major_axis (datum (GeoReference_of small_datum))"
    by (simp add: GeoReference_of_def small_datum_def)
  have m: "\<forall>m\<in>set (sample_spacings ll fine_forward (GeoReference_of small_datum) img). m \<noteq> 0"
    using fine_spacing_pos by (simp add: sample_spacings_fine_forward)
  have d: "semi_major_axis (datum (GeoReference_of small_datum)) = 128"
    "datum (GeoReference_of small_datum) = small_datum"
    by (simp_all add: GeoReference_of_def small_datum_def)
  have u: "semi_major_axis small_datum = 128" by (simp add: small_datum_def)
  have a: "log_argument (requested_pixels_per_meter_spec 256 128
      [fine_spacing, fine_spacing, fine_spacing, fine_spacing, fine_spacing]) 128 =
      2 ^ 61 / (2 ^ 53 - 1)"
    by (simp add: log_argument_def requested_pixels_per_meter_spec_def fine_spacing_def)
  have c: "\<lceil>rounded_log2 (2 ^ 61 / (2 ^ 53 - 1))\<rceil> = 8"
    by (simp only: rounded_log2_fine) simp
  have "transform_image rounded_log2 ll fine_forward this (GeoReference_of small_datum) img =
     (case numeric_cast_int 8 of
        Inl e \<Rightarrow> Inl e
      | Inr l \<Rightarrow> Inr \<lparr>placed_level = l, placed_north = is_north_of ll (GeoReference_of small_datum) img,
                       placed_georef = georeference this l (is_north_of ll (GeoReference_of small_datum) img)
                         small_datum\<rparr>)"
    using transform_image_finite [OF R m, of rounded_log2 this]
    by (simp only: d u sample_spacings_fine_forward a c)
  then show ?thesis
    by (simp add: numeric_cast_int_def)
qed

text \<open>
  C5 fails where the rounding of the logarithm takes the level down. On a datum
  of radius 128 and an image of one pixel (the five sample points are the pixel
  \<open>(0, 0)\<close>) with local spacings of \<open>2\<^sup>-\<^sup>8 - 2\<^sup>-\<^sup>6\<^sup>1\<close> the argument of the
  logarithm is just above \<open>2\<^sup>8\<close>; the double nearest to its logarithm is 8, so
  that the level is 8 and the pixel spacing of the georeference returned is
  \<open>2\<^sup>-\<^sup>8\<close>, above the local spacing of every sample point.
\<close>

theorem resolution_insufficient_at_rounding:
  "sample_spacings (shifted_lonlat 1) fine_forward (GeoReference_of small_datum) (ImageView_new 1 1) =
     [1 / 2 ^ 8 - 1 / 2 ^ 61, 1 / 2 ^ 8 - 1 / 2 ^ 61, 1 / 2 ^ 8 - 1 / 2 ^ 61,
      1 / 2 ^ 8 - 1 / 2 ^ 61, 1 / 2 ^ 8 - 1 / 2 ^ 61] \<and>
   map_sum id placed_level
     (transform_image rounded_log2 (shifted_lonlat 1) fine_forward (manager_of (empty_platefile 256))
        (GeoReference_of small_datum) (ImageView_new 1 1)) = Inr 8 \<and>
   map_sum id (\<lambda>res. pixel_spacing (placed_georef res))
     (transform_image rounded_log2 (shifted_lonlat 1) fine_forward (manager_of (empty_platefile 256))
        (GeoReference_of small_datum) (ImageView_new 1 1)) = Inr (1 / 2 ^ 8) \<and>
   pixel_spacing (georeference (manager_of (empty_platefile 256)) 8 True small_datum) = 1 / 2 ^ 8 \<and>
   (1 / 2 ^ 8 - 1 / 2 ^ 61 :: real) < 1 / 2 ^ 8"
proof -
  have s: "pixel_spacing (georeference this 8 north small_datum) = 1 / 2 ^ 8" for this north
    by (simp add: pixel_spacing_def georeference_fields small_datum_def)
  show ?thesis
    by (simp add: transform_image_fine sample_spacings_fine_forward fine_spacing_def s)
qed


text \<open>
  When the double quotient is not below the exact logarithm, the pixel spacing
  of the georeference returned is at most the local spacing of each sample
  point.
\<close>

lemma resolution_sufficient_without_underestimate:
  assumes R: "0 < semi_major_axis (datum georef)"
    and res: "transform_image lg ll gf this georef img = Inr res"
    and lg: "log 2 (log_argument
               (requested_pixels_per_meter_spec 256 (semi_major_axis (datum georef))
                  (sample_spacings ll gf georef img))
               (semi_major_axis (datum georef))) \<le>
             lg (log_argument
               (requested_pixels_per_meter_spec 256 (semi_major_axis (datum georef))
                  (sample_spacings ll gf georef img))
               (semi_major_axis (datum georef)))"
    and m: "m \<in> set (sample_spacings ll gf georef img)"
  shows "pixel_spacing (placed_georef res) \<le> m"
proof -
  let ?R = "semi_major_axis (datum georef)"
  let ?ms = "sample_spacings ll gf georef img"
  let ?q = "requested_pixels_per_meter_spec 256 ?R ?ms"
  let ?arg = "log_argument ?q ?R"
  note r = transform_image_Inr [OF R res]
  from r have m0: "\<forall>m\<in>set ?ms. m \<noteq> 0" by blast
  from r have l: "placed_level res = \<lceil>lg ?arg\<rceil>" by blast
  from r have g: "placed_georef res = georeference this (placed_level res) (placed_north res) (datum georef)"
    by blast
  have "0 \<le> m" using m by (auto simp: sample_spacings_def local_spacing_nonneg)
  with m m0 have mpos: "0 < m" by force
  have arg1: "1 \<le> ?arg" by (rule log_argument_ge_1 [OF R])
  then have arg0: "0 < ?arg" by linarith
  have "lg ?arg \<le> real_of_int \<lceil>lg ?arg\<rceil>" by (rule le_of_int_ceiling)
  with lg have "log 2 ?arg \<le> real_of_int (placed_level res)" by (simp only: l)
  then have "?arg \<le> 2 powr real_of_int (placed_level res)"
    using arg0 by (simp add: log_le_iff)
  then have "?q * (2 * ?R) \<le> 256 * 2 powr real_of_int (placed_level res)"
    by (simp add: log_argument_def)
  moreover have "1 / m \<le> ?q" by (rule requested_spec_ge_sample [OF m])
  then have "1 / m * (2 * ?R) \<le> ?q * (2 * ?R)"
    using R by (intro mult_right_mono) simp_all
  ultimately have "1 / m * (2 * ?R) \<le> 256 * 2 powr real_of_int (placed_level res)"
    by linarith
  then have "2 * ?R \<le> m * (256 * 2 powr real_of_int (placed_level res))"
    using mpos by (simp add: field_simps)
  then have "2 * ?R / (256 * 2 powr real_of_int (placed_level res)) \<le> m"
    by (simp add: divide_le_eq)
  then show ?thesis
    by (subst g) (simp add: pixel_spacing_def georeference_fields)
qed

text \<open>
  C6: the five sample points are the centre and the points at one and three
  quarters of the width and of the height (integer divisions); the selector is on
  the north pole exactly when more than 2 of the 5 have a latitude above 0. Five
  latitudes above 0 give north, five latitudes at most 0 give south, and the
  georeference returned is centred on the pole chosen.
\<close>

theorem hemisphere_vote:
  "test_points img =
     [(real (cols img div 2), real (rows img div 2)),
      (real (3 * cols img div 4), real (rows img div 2)),
      (real (cols img div 4), real (rows img div 2)),
      (real (cols img div 2), real (3 * rows img div 4)),
      (real (cols img div 2), real (rows img div 4))] \<and>
   is_north_of pixel_to_lonlat georef img =
     (2 < length (filter (\<lambda>p. 0 < snd (pixel_to_lonlat georef p)) (test_points img))) \<and>
   ((\<forall>p\<in>set (test_points img). 0 < snd (pixel_to_lonlat georef p)) \<longrightarrow>
      is_north_of pixel_to_lonlat georef img) \<and>
   ((\<forall>p\<in>set (test_points img). snd (pixel_to_lonlat georef p) \<le> 0) \<longrightarrow>
      \<not> is_north_of pixel_to_lonlat georef img) \<and>
   (\<forall>res. transform_image log2_double pixel_to_lonlat GeoTransform_forward this georef img = Inr res \<longrightarrow>
      placed_north res = is_north_of pixel_to_lonlat georef img \<and>
      projection (placed_georef res) =
        Stereographic (if is_north_of pixel_to_lonlat georef img then 90 else - 90) 0 1 0 0)"
proof -
  have a: "test_points img =
     [(real (cols img div 2), real (rows img div 2)),
      (real (3 * cols img div 4), real (rows img div 2)),
      (real (cols img div 4), real (rows img div 2)),
      (real (cols img div 2), real (3 * rows img div 4)),
      (real (cols img div 2), real (rows img div 4))]"
    by (simp add: test_points_def mult.commute)
  have len: "length (test_points img) = 5" by (simp add: test_points_def)
  have c: "(\<forall>p\<in>set (test_points img). 0 < snd (pixel_to_lonlat georef p)) \<longrightarrow>
      is_north_of pixel_to_lonlat georef img"
  proof
    assume "\<forall>p\<in>set (test_points img). 0 < snd (pixel_to_lonlat georef p)"
    then have "filter (\<lambda>p. 0 < snd (pixel_to_lonlat georef p)) (test_points img) = test_points img"
      by (simp add: filter_id_conv)
    then show "is_north_of pixel_to_lonlat georef img"
      by (simp add: is_north_of_filter len)
  qed
  have d: "(\<forall>p\<in>set (test_points img). snd (pixel_to_lonlat georef p) \<le> 0) \<longrightarrow>
      \<not> is_north_of pixel_to_lonlat georef img"
  proof
    assume "\<forall>p\<in>set (test_points img). snd (pixel_to_lonlat georef p) \<le> 0"
    then have "filter (\<lambda>p. 0 < snd (pixel_to_lonlat georef p)) (test_points img) = []"
      by (simp add: filter_empty_conv not_less)
    then show "\<not> is_north_of pixel_to_lonlat georef img"
      by (simp add: is_north_of_filter)
  qed
  have e: "\<forall>res. transform_image log2_double pixel_to_lonlat GeoTransform_forward this georef img = Inr res \<longrightarrow>
      placed_north res = is_north_of pixel_to_lonlat georef img \<and>
      projection (placed_georef res) =
        Stereographic (if is_north_of pixel_to_lonlat georef img then 90 else - 90) 0 1 0 0"
    by (auto simp: transform_image_def Let_def georeference_fields split: sum.splits)
  from a is_north_of_filter c d e show ?thesis by blast
qed

lemma test_points_8: "test_points (ImageView_new 8 8) = [(4, 4), (6, 4), (2, 4), (4, 6), (4, 2)]"
  by (simp add: test_points_def ImageView_new_def)

text \<open>
  C6 on an 8 by 8 image: four of five points north, all north, all south, and a
  vote of 2 against 3 that goes south.
\<close>

theorem hemisphere_vote_witness:
  "test_points (ImageView_new 8 8) = [(4, 4), (6, 4), (2, 4), (4, 6), (4, 2)] \<and>
   is_north_of (shifted_lonlat (- 3)) (GeoReference_of unit_datum) (ImageView_new 8 8) \<and>
   is_north_of (shifted_lonlat 1) (GeoReference_of unit_datum) (ImageView_new 8 8) \<and>
   \<not> is_north_of (shifted_lonlat (- 10)) (GeoReference_of unit_datum) (ImageView_new 8 8) \<and>
   \<not> is_north_of (shifted_lonlat (- 4)) (GeoReference_of unit_datum) (ImageView_new 8 8) \<and>
   map_sum id placed_north (transform_image exact_log2 (shifted_lonlat (- 10)) scale_forward
       (manager_of (empty_platefile 256)) (GeoReference_of unit_datum) (ImageView_new 8 8)) = Inr False \<and>
   projection (placed_georef (projr (transform_image exact_log2 (shifted_lonlat (- 10)) scale_forward
       (manager_of (empty_platefile 256)) (GeoReference_of unit_datum) (ImageView_new 8 8)))) =
     Stereographic (- 90) 0 1 0 0"
proof -
  let ?G = "GeoReference_of unit_datum" and ?I = "ImageView_new 8 8"
  let ?M = "manager_of (empty_platefile 256)"
  note T = hemisphere_vote [where img = ?I and georef = ?G and GeoTransform_forward = scale_forward
      and this = ?M and log2_double = exact_log2]
  have mixed: "is_north_of (shifted_lonlat (- 3)) ?G ?I"
    using T [where pixel_to_lonlat = "shifted_lonlat (- 3)"]
    by (simp add: test_points_8 shifted_lonlat_def)
  have tie: "\<not> is_north_of (shifted_lonlat (- 4)) ?G ?I"
    using T [where pixel_to_lonlat = "shifted_lonlat (- 4)"]
    by (simp add: test_points_8 shifted_lonlat_def)
  have "\<forall>p\<in>set (test_points ?I). 0 < snd (shifted_lonlat 1 ?G p)"
    by (simp add: test_points_8 shifted_lonlat_def)
  with T [where pixel_to_lonlat = "shifted_lonlat 1"]
  have north: "is_north_of (shifted_lonlat 1) ?G ?I" by blast
  have "\<forall>p\<in>set (test_points ?I). snd (shifted_lonlat (- 10) ?G p) \<le> 0"
    by (simp add: test_points_8 shifted_lonlat_def)
  with T [where pixel_to_lonlat = "shifted_lonlat (- 10)"]
  have south: "\<not> is_north_of (shifted_lonlat (- 10)) ?G ?I" by blast
  have r: "transform_image exact_log2 (shifted_lonlat (- 10)) scale_forward ?M ?G ?I =
      Inr (projr (transform_image exact_log2 (shifted_lonlat (- 10)) scale_forward ?M ?G ?I))"
    by (simp add: transform_image_example)
  note T5 = T [where pixel_to_lonlat = "shifted_lonlat (- 10)", THEN conjunct2, THEN conjunct2,
      THEN conjunct2, THEN conjunct2, rule_format, OF r]
  have "map_sum id placed_north (transform_image exact_log2 (shifted_lonlat (- 10)) scale_forward ?M ?G ?I) =
      Inr (placed_north (projr (transform_image exact_log2 (shifted_lonlat (- 10)) scale_forward ?M ?G ?I)))"
    by (subst r) simp
  with T5 south
  have "map_sum id placed_north (transform_image exact_log2 (shifted_lonlat (- 10)) scale_forward ?M ?G ?I) =
      Inr False \<and>
    projection (placed_georef (projr (transform_image exact_log2 (shifted_lonlat (- 10)) scale_forward ?M ?G ?I))) =
      Stereographic (- 90) 0 1 0 0"
    by simp
  with mixed tie north south test_points_8 show ?thesis by blast
qed

subsection \<open>The mipmap synthesizer\<close>

lemma gather_children_dims:
  "gather_children pf col row level t ijs calls super = (calls', Inr super') \<Longrightarrow>
   cols super' = cols super \<and> rows super' = rows super"
proof (induction ijs arbitrary: calls super)
  case Nil
  then show ?case by simp
next
  case (Cons ij ijs)
  obtain i j where ij: "ij = (i, j)" by (cases ij)
  show ?case
    using Cons.prems Cons.IH
    by (auto simp: ij Let_def crop_assign_def split: sum.splits read_failure.splits)
qed

lemma read_children_dims:
  "read_children this col row level t = (calls, Inr super) \<Longrightarrow>
   cols super = 2 * default_tile_size (m_platefile this) \<and>
   rows super = 2 * default_tile_size (m_platefile this)"
  unfolding read_children_def Let_def
  by (drule gather_children_dims) (simp add: ImageView_new_def)

lemma fatal_iff: "fatal r = (\<exists>e. r = Inl e \<and> e \<noteq> TileNotFoundErr)"
  by (cases r rule: fatal.cases) simp_all

lemma gather_children_ok:
  "\<forall>ij\<in>set ijs. \<not> fatal (child_read pf col row level t ij) \<Longrightarrow>
   gather_children pf col row level t ijs calls super =
     (calls @ map (child_call col row level t) ijs, Inr (foldl (place pf col row level t) super ijs))"
proof (induction ijs arbitrary: calls super)
  case Nil
  then show ?case by simp
next
  case (Cons ij ijs)
  obtain i j where ij: "ij = (i, j)" by (cases ij)
  from Cons.prems have nf: "\<not> fatal (child_read pf col row level t (i, j))"
    and rest: "\<forall>ij\<in>set ijs. \<not> fatal (child_read pf col row level t ij)"
    by (simp_all add: ij)
  show ?case
  proof (cases "child_read pf col row level t (i, j)")
    case (Inr child)
    then show ?thesis
      using Cons.IH [OF rest]
      by (simp add: ij Let_def child_read_def child_call_def place_def)
  next
    case (Inl e)
    with nf have "e = TileNotFoundErr" by (cases e) simp_all
    with Inl show ?thesis
      using Cons.IH [OF rest]
      by (simp add: ij Let_def child_read_def child_call_def place_def)
  qed
qed

lemma gather_children_fatal:
  assumes "\<forall>p\<in>set pre. \<not> fatal (child_read pf col row level t p)"
    and "child_read pf col row level t ij = Inl e" and "e \<noteq> TileNotFoundErr"
  shows "gather_children pf col row level t (pre @ ij # post) calls super =
     (calls @ map (child_call col row level t) (pre @ [ij]), Inl e)"
  using assms(1)
proof (induction pre arbitrary: calls super)
  case Nil
  obtain i j where ij: "ij = (i, j)" by (cases ij)
  show ?case
    using assms(2,3)
    by (cases e) (simp_all add: ij Let_def child_read_def child_call_def)
next
  case (Cons p pre)
  obtain i j where p: "p = (i, j)" by (cases p)
  from Cons.prems have nf: "\<not> fatal (child_read pf col row level t (i, j))"
    and rest: "\<forall>ij\<in>set pre. \<not> fatal (child_read pf col row level t ij)"
    by (simp_all add: p)
  show ?case
  proof (cases "child_read pf col row level t (i, j)")
    case (Inr child)
    then show ?thesis
      using Cons.IH [OF rest]
      by (simp add: p Let_def child_read_def child_call_def)
  next
    case (Inl e')
    with nf have "e' = TileNotFoundErr" by (cases e') simp_all
    with Inl show ?thesis
      using Cons.IH [OF rest]
      by (simp add: p Let_def child_read_def child_call_def)
  qed
qed

lemma pixel_place:
  "pixel (place pf col row level t super ij) x y =
     (case child_read pf col row level t ij of
        Inr child \<Rightarrow>
          if in_quadrant (default_tile_size pf) ij x y
          then pixel child (x - default_tile_size pf * fst ij) (y - default_tile_size pf * snd ij)
          else pixel super x y
      | Inl e \<Rightarrow> pixel super x y)"
  by (simp add: place_def crop_assign_def in_quadrant_def split: sum.splits)

lemma in_quadrant_offset:
  "i < 2 \<Longrightarrow> j < 2 \<Longrightarrow> i' < 2 \<Longrightarrow> j' < 2 \<Longrightarrow> x < n \<Longrightarrow> y < n \<Longrightarrow>
   in_quadrant n (i', j') (n * i + x) (n * j + y) = (i' = i \<and> j' = j)"
  by (auto simp: in_quadrant_def less_2_cases_iff)

lemma pixel_canvas:
  assumes "i < 2" "j < 2" "x < default_tile_size pf" "y < default_tile_size pf"
  shows "pixel (foldl (place pf col row level t)
                  (ImageView_new (2 * default_tile_size pf) (2 * default_tile_size pf)) children)
           (default_tile_size pf * i + x) (default_tile_size pf * j + y) =
         (case child_read pf col row level t (i, j) of
            Inr child \<Rightarrow> pixel child x y
          | Inl e \<Rightarrow> PixelGrayA_default)"
proof -
  have q: "in_quadrant (default_tile_size pf) (i', j')
             (default_tile_size pf * i + x) (default_tile_size pf * j + y) = (i' = i \<and> j' = j)"
    if "i' < 2" "j' < 2" for i' j'
    using in_quadrant_offset [OF assms(1,2) that assms(3,4)] by simp
  have new: "pixel (ImageView_new a b) u w = PixelGrayA_default" for a b u w
    by (simp add: ImageView_new_def)
  from assms(1,2) consider "i = 0" "j = 0" | "i = 1" "j = 0" | "i = 0" "j = 1" | "i = 1" "j = 1"
    by (auto simp: less_2_cases_iff)
  then show ?thesis
  proof cases
    case 1
    then show ?thesis
      using q [of 0 0] q [of 1 0] q [of 0 1] q [of 1 1]
      by (simp add: children_def pixel_place new split: sum.splits)
  next
    case 2
    then show ?thesis
      using q [of 0 0] q [of 1 0] q [of 0 1] q [of 1 1]
      by (simp add: children_def pixel_place new split: sum.splits)
  next
    case 3
    then show ?thesis
      using q [of 0 0] q [of 1 0] q [of 0 1] q [of 1 1]
      by (simp add: children_def pixel_place new split: sum.splits)
  next
    case 4
    then show ?thesis
      using q [of 0 0] q [of 1 0] q [of 0 1] q [of 1 1]
      by (simp add: children_def pixel_place new split: sum.splits)
  qed
qed

lemma read_children_ok:
  assumes "\<forall>ij\<in>set children. \<not> fatal (child_read (m_platefile this) col row level t ij)"
  shows "read_children this col row level t =
     (map (child_call col row level t) children,
      Inr (foldl (place (m_platefile this) col row level t)
             (ImageView_new (2 * default_tile_size (m_platefile this))
                (2 * default_tile_size (m_platefile this))) children))"
  using gather_children_ok [OF assms, of "[]"]
  by (simp add: read_children_def Let_def)

lemma read_children_fatal:
  assumes "children = pre @ ij # post"
    and "\<forall>p\<in>set pre. \<not> fatal (child_read (m_platefile this) col row level t p)"
    and "child_read (m_platefile this) col row level t ij = Inl e" and "e \<noteq> TileNotFoundErr"
  shows "read_children this col row level t = (map (child_call col row level t) (pre @ [ij]), Inl e)"
  using gather_children_fatal [OF assms(2,3,4), of post "[]"]
  by (simp add: read_children_def Let_def assms(1))

lemma read_children_cases:
  obtains (ok) "\<forall>ij\<in>set children. \<not> fatal (child_read (m_platefile this) col row level t ij)"
  | (fatal) pre ij post e where "children = pre @ ij # post"
      "\<forall>p\<in>set pre. \<not> fatal (child_read (m_platefile this) col row level t p)"
      "child_read (m_platefile this) col row level t ij = Inl e" "e \<noteq> TileNotFoundErr"
proof (cases "\<exists>ij\<in>set children. fatal (child_read (m_platefile this) col row level t ij)")
  case True
  from split_list_first_prop [OF this]
  obtain pre ij post where c: "children = pre @ ij # post"
    and f: "fatal (child_read (m_platefile this) col row level t ij)"
    and p: "\<forall>p\<in>set pre. \<not> fatal (child_read (m_platefile this) col row level t p)"
    by blast
  from f obtain e where "child_read (m_platefile this) col row level t ij = Inl e" "e \<noteq> TileNotFoundErr"
    by (auto simp: fatal_iff)
  with c p show ?thesis by (rule fatal)
next
  case False
  then show ?thesis by (intro ok) simp
qed

lemma is_write_child_call: "\<not> is_write (child_call col row level t ij)"
  by (simp add: child_call_def)

lemma read_children_Inr:
  assumes "read_children this col row level t = (calls, Inr super)"
  shows "(\<forall>ij\<in>set children. \<not> fatal (child_read (m_platefile this) col row level t ij)) \<and>
     calls = map (child_call col row level t) children \<and>
     super = foldl (place (m_platefile this) col row level t)
             (ImageView_new (2 * default_tile_size (m_platefile this))
                (2 * default_tile_size (m_platefile this))) children"
proof (cases rule: read_children_cases [of this col row level t])
  case ok
  from read_children_ok [OF ok] assms ok show ?thesis by simp
next
  case (fatal pre ij post e)
  from read_children_fatal [OF fatal] assms show ?thesis by simp
qed

lemma read_children_Inl:
  assumes "read_children this col row level t = (calls, Inl e)"
  shows "e \<noteq> TileNotFoundErr \<and>
     (\<exists>pre ij post. children = pre @ ij # post \<and>
        (\<forall>p\<in>set pre. \<not> fatal (child_read (m_platefile this) col row level t p)) \<and>
        child_read (m_platefile this) col row level t ij = Inl e \<and>
        calls = map (child_call col row level t) (pre @ [ij]))"
proof (cases rule: read_children_cases [of this col row level t])
  case ok
  from read_children_ok [OF ok] assms show ?thesis by simp
next
  case (fatal pre ij post e')
  from read_children_fatal [OF fatal] assms have "e' = e" "calls = map (child_call col row level t) (pre @ [ij])"
    by simp_all
  with fatal show ?thesis by blast
qed

lemma is_transparent_iff:
  "is_transparent img = (\<forall>x<cols img. \<forall>y<rows img. \<not> px_valid (pixel img x y))"
  by (auto simp: is_transparent_def list_all_iff)

lemma downsample_dims:
  "cols (downsample preblur super) = (cols super + 1) div 2"
  "rows (downsample preblur super) = (rows super + 1) div 2"
  by (simp_all add: downsample_def subsample_def separable_convolution_filter_def
      box_filter_x_def box_filter_y_def)

lemma pixel_downsample_plain:
  "pixel (downsample False super) x y = pixel super (2 * x) (2 * y)"
  by (simp add: downsample_def subsample_def)


lemma downsample_blank_transparent:
  assumes "\<And>x y. pixel super x y = PixelGrayA_default"
  shows "is_transparent (downsample preblur super)"
  by (simp add: is_transparent_iff downsample_def subsample_def separable_convolution_filter_def
      box_filter_x_def box_filter_y_def px_add_def px_scale_def px_valid_def assms
      PixelGrayA_default_def)

lemma place_absent:
  "child_read pf col row level t ij = Inl e \<Longrightarrow> place pf col row level t super ij = super"
  by (simp add: place_def)

lemma generate_mipmap_tile_Inr:
  "read_children this col row level t = (calls, Inr super) \<Longrightarrow>
   generate_mipmap_tile this col row level t preblur =
     (if is_transparent (downsample preblur super) then (calls, Inr ())
      else (calls @ [Write_update_call (downsample preblur super) col row level t], Inr ()))"
  by (simp add: generate_mipmap_tile_def Let_def)

lemma generate_mipmap_tile_Inl:
  "read_children this col row level t = (calls, Inl e) \<Longrightarrow>
   generate_mipmap_tile this col row level t preblur = (calls, Inl e)"
  by (simp add: generate_mipmap_tile_def)

lemma read_children_all_absent:
  assumes "\<forall>ij\<in>set children. child_read (m_platefile this) col row level t ij = Inl TileNotFoundErr"
  shows "read_children this col row level t =
     (map (child_call col row level t) children,
      Inr (ImageView_new (2 * default_tile_size (m_platefile this))
             (2 * default_tile_size (m_platefile this))))"
proof -
  have nf: "\<forall>ij\<in>set children. \<not> fatal (child_read (m_platefile this) col row level t ij)"
    using assms by simp
  show ?thesis
    using assms by (simp add: read_children_ok [OF nf]) (simp add: children_def place_absent)
qed






lemma child_calls:
  "map (child_call col row level t) children =
     [Read_call (2 * col) (2 * row) (level + 1) t True,
      Read_call (2 * col + 1) (2 * row) (level + 1) t True,
      Read_call (2 * col) (2 * row + 1) (level + 1) t True,
      Read_call (2 * col + 1) (2 * row + 1) (level + 1) t True]"
  by (simp add: children_def child_call_def)

lemma sint_double:
  "- (2 ^ 30) \<le> sint c \<Longrightarrow> sint c < 2 ^ 30 \<Longrightarrow> sint (2 * c :: int32) = 2 * sint c"
  by (simp add: sint_word_ariths signed_take_bit_int_eq_self)

lemma sint_double_plus:
  "- (2 ^ 30) \<le> sint c \<Longrightarrow> sint c < 2 ^ 30 \<Longrightarrow> sint (2 * c + 1 :: int32) = 2 * sint c + 1"
  by (simp add: sint_word_ariths signed_take_bit_int_eq_self)

lemma sint_succ:
  "sint l < 2 ^ 31 - 1 \<Longrightarrow> sint (l + 1 :: int32) = sint l + 1"
  using sint_ge [of l]
  by (simp add: sint_word_ariths signed_take_bit_int_eq_self)

lemma call_coords_children:
  assumes "- (2 ^ 30) \<le> sint col" "sint col < 2 ^ 30" "- (2 ^ 30) \<le> sint row" "sint row < 2 ^ 30"
    "sint level < 2 ^ 31 - 1"
  shows "map call_coords (map (child_call col row level t) children) =
        [(2 * sint col, 2 * sint row, sint level + 1),
         (2 * sint col + 1, 2 * sint row, sint level + 1),
         (2 * sint col, 2 * sint row + 1, sint level + 1),
         (2 * sint col + 1, 2 * sint row + 1, sint level + 1)]"
  using assms
  by (simp add: children_def child_call_def call_coords_def sint_double sint_double_plus sint_succ)

lemma read_children_empty:
  "read_children (manager_of (empty_platefile n)) c r l t =
     ([Read_call (2 * c) (2 * r) (l + 1) t True, Read_call (2 * c + 1) (2 * r) (l + 1) t True,
       Read_call (2 * c) (2 * r + 1) (l + 1) t True, Read_call (2 * c + 1) (2 * r + 1) (l + 1) t True],
      Inr (ImageView_new (2 * n) (2 * n)))"
  by (simp add: read_children_def children_def manager_of_def empty_platefile_def
      absent_read_def Let_def)

text \<open>
  C2, as stated, for the tile in column \<open>2\<^sup>3\<^sup>0\<close>, row 0 of level 31: the claim has
  the child in column \<open>2\<cdot>col = 2\<^sup>3\<^sup>1\<close> read, which no \<^verbatim>\<open>int\<close> holds. The
  product \<^verbatim>\<open>2*col\<close> wraps around and the columns read are \<open>-2\<^sup>3\<^sup>1\<close> and
  \<open>-2\<^sup>3\<^sup>1 + 1\<close>.
\<close>

theorem children_read_overflow_counterexample:
  "map call_coords (fst (read_children (manager_of (empty_platefile 2)) 1073741824 0 31 7)) =
     [(- 2147483648, 0, 32), (- 2147483647, 0, 32), (- 2147483648, 1, 32), (- 2147483647, 1, 32)] \<and>
   sint (1073741824 :: int32) = 1073741824 \<and>
   (2 * sint (1073741824 :: int32), 2 * sint (0 :: int32), sint (31 :: int32) + 1) \<notin>
     set (map call_coords (fst (read_children (manager_of (empty_platefile 2)) 1073741824 0 31 7)))"
  by (simp add: read_children_empty call_coords_def)


text \<open>
  C2, amended: the four reads are those of the tiles \<open>(2\<cdot>col + i, 2\<cdot>row + j)\<close>
  at \<open>level + 1\<close> in the arithmetic of \<^verbatim>\<open>int\<close>, \<open>i\<close> running inside \<open>j\<close>, each
  with the transaction of the call and the exact-transaction flag set; as
  integers these are \<open>2\<cdot>col + i\<close>, \<open>2\<cdot>row + j\<close> and \<open>level + 1\<close> when \<open>col\<close> and
  \<open>row\<close> lie between \<open>-2\<^sup>3\<^sup>0\<close> and \<open>2\<^sup>3\<^sup>0 - 1\<close> and \<open>level\<close> is below
  \<open>2\<^sup>3\<^sup>1 - 1\<close>. When no read fails with anything but "not found", all four are
  made and the canvas holds, in the quadrant at offset
  \<open>(i\<cdot>tile_size, j\<cdot>tile_size)\<close>, the child \<open>(i, j)\<close> where it was read and
  default (no-data) pixels where it was not found. The first read that fails with
  another error ends the reads, and the function leaves with that error.
\<close>

theorem children_read_and_placed:
  "map (child_call col row level t) children =
     [Read_call (2 * col) (2 * row) (level + 1) t True,
      Read_call (2 * col + 1) (2 * row) (level + 1) t True,
      Read_call (2 * col) (2 * row + 1) (level + 1) t True,
      Read_call (2 * col + 1) (2 * row + 1) (level + 1) t True] \<and>
   (- (2 ^ 30) \<le> sint col \<and> sint col < 2 ^ 30 \<and> - (2 ^ 30) \<le> sint row \<and> sint row < 2 ^ 30 \<and>
    sint level < 2 ^ 31 - 1 \<longrightarrow>
      map call_coords (map (child_call col row level t) children) =
        [(2 * sint col, 2 * sint row, sint level + 1),
         (2 * sint col + 1, 2 * sint row, sint level + 1),
         (2 * sint col, 2 * sint row + 1, sint level + 1),
         (2 * sint col + 1, 2 * sint row + 1, sint level + 1)]) \<and>
   (\<forall>i j. child_read (m_platefile this) col row level t (i, j) =
      read (m_platefile this) (2 * col + of_nat i) (2 * row + of_nat j) (level + 1) t True) \<and>
   ((\<forall>ij\<in>set children. \<not> fatal (child_read (m_platefile this) col row level t ij)) \<longrightarrow>
      (\<exists>super.
         read_children this col row level t = (map (child_call col row level t) children, Inr super) \<and>
         (\<forall>i<2. \<forall>j<2. \<forall>x<default_tile_size (m_platefile this).
            \<forall>y<default_tile_size (m_platefile this).
              pixel super (default_tile_size (m_platefile this) * i + x)
                          (default_tile_size (m_platefile this) * j + y) =
                (case child_read (m_platefile this) col row level t (i, j) of
                   Inr child \<Rightarrow> pixel child x y
                 | Inl e \<Rightarrow> PixelGrayA_default)))) \<and>
   (\<forall>pre ij post e.
      children = pre @ ij # post \<and>
      (\<forall>p\<in>set pre. \<not> fatal (child_read (m_platefile this) col row level t p)) \<and>
      child_read (m_platefile this) col row level t ij = Inl e \<and> e \<noteq> TileNotFoundErr \<longrightarrow>
      read_children this col row level t = (map (child_call col row level t) (pre @ [ij]), Inl e) \<and>
      generate_mipmap_tile this col row level t preblur =
        (map (child_call col row level t) (pre @ [ij]), Inl e))"
proof (intro conjI impI allI)
  show "map (child_call col row level t) children =
     [Read_call (2 * col) (2 * row) (level + 1) t True,
      Read_call (2 * col + 1) (2 * row) (level + 1) t True,
      Read_call (2 * col) (2 * row + 1) (level + 1) t True,
      Read_call (2 * col + 1) (2 * row + 1) (level + 1) t True]"
    by (rule child_calls)
next
  assume "- (2 ^ 30) \<le> sint col \<and> sint col < 2 ^ 30 \<and> - (2 ^ 30) \<le> sint row \<and> sint row < 2 ^ 30 \<and>
    sint level < 2 ^ 31 - 1"
  then show "map call_coords (map (child_call col row level t) children) =
        [(2 * sint col, 2 * sint row, sint level + 1),
         (2 * sint col + 1, 2 * sint row, sint level + 1),
         (2 * sint col, 2 * sint row + 1, sint level + 1),
         (2 * sint col + 1, 2 * sint row + 1, sint level + 1)]"
    by (intro call_coords_children) simp_all
next
  fix i j
  show "child_read (m_platefile this) col row level t (i, j) =
      read (m_platefile this) (2 * col + of_nat i) (2 * row + of_nat j) (level + 1) t True"
    by (simp add: child_read_def)
next
  assume nf: "\<forall>ij\<in>set children. \<not> fatal (child_read (m_platefile this) col row level t ij)"
  show "\<exists>super.
         read_children this col row level t = (map (child_call col row level t) children, Inr super) \<and>
         (\<forall>i<2. \<forall>j<2. \<forall>x<default_tile_size (m_platefile this).
            \<forall>y<default_tile_size (m_platefile this).
              pixel super (default_tile_size (m_platefile this) * i + x)
                          (default_tile_size (m_platefile this) * j + y) =
                (case child_read (m_platefile this) col row level t (i, j) of
                   Inr child \<Rightarrow> pixel child x y
                 | Inl e \<Rightarrow> PixelGrayA_default))"
  proof (intro exI conjI allI impI)
    show "read_children this col row level t =
        (map (child_call col row level t) children,
         Inr (foldl (place (m_platefile this) col row level t)
             (ImageView_new (2 * default_tile_size (m_platefile this))
                (2 * default_tile_size (m_platefile this))) children))"
      by (rule read_children_ok [OF nf])
  next
    fix i j x y :: nat
    assume "i < 2" "j < 2" "x < default_tile_size (m_platefile this)"
      "y < default_tile_size (m_platefile this)"
    then show "pixel (foldl (place (m_platefile this) col row level t)
             (ImageView_new (2 * default_tile_size (m_platefile this))
                (2 * default_tile_size (m_platefile this))) children)
          (default_tile_size (m_platefile this) * i + x)
          (default_tile_size (m_platefile this) * j + y) =
        (case child_read (m_platefile this) col row level t (i, j) of
           Inr child \<Rightarrow> pixel child x y
         | Inl e \<Rightarrow> PixelGrayA_default)"
      by (rule pixel_canvas)
  qed
next
  fix pre ij post e
  assume h: "children = pre @ ij # post \<and>
      (\<forall>p\<in>set pre. \<not> fatal (child_read (m_platefile this) col row level t p)) \<and>
      child_read (m_platefile this) col row level t ij = Inl e \<and> e \<noteq> TileNotFoundErr"
  then have "children = pre @ ij # post"
    "\<forall>p\<in>set pre. \<not> fatal (child_read (m_platefile this) col row level t p)"
    "child_read (m_platefile this) col row level t ij = Inl e" "e \<noteq> TileNotFoundErr"
    by simp_all
  then have r: "read_children this col row level t = (map (child_call col row level t) (pre @ [ij]), Inl e)"
    by (rule read_children_fatal)
  show "read_children this col row level t = (map (child_call col row level t) (pre @ [ij]), Inl e)"
    by (rule r)
  show "generate_mipmap_tile this col row level t preblur =
        (map (child_call col row level t) (pre @ [ij]), Inl e)"
    by (rule generate_mipmap_tile_Inl [OF r])
qed

text \<open>
  C1: when the four reads are done (found or not found), the calls so far are
  exactly these four reads, and the function writes the downsampled tile at
  \<open>(col, row, level)\<close> under the transaction of the call, once and after the
  reads, exactly when the tile is not transparent, that is when some pixel inside
  it is valid; when it is transparent nothing is written. When a read fails with
  another error nothing is written either. Four reads that report "not found"
  give a transparent tile, hence no write. The C++ function returns nothing: the
  result \<open>None\<close> of the spec is the absence of a write.
\<close>

theorem write_only_when_not_transparent:
  "(\<forall>calls super. read_children this col row level t = (calls, Inr super) \<longrightarrow>
      calls = map (child_call col row level t) children \<and>
      (\<forall>c\<in>set calls. \<not> is_write c) \<and>
      generate_mipmap_tile this col row level t preblur =
        (if is_transparent (downsample preblur super) then (calls, Inr ())
         else (calls @ [Write_update_call (downsample preblur super) col row level t], Inr ()))) \<and>
   (\<forall>calls e. read_children this col row level t = (calls, Inl e) \<longrightarrow>
      (\<forall>c\<in>set calls. \<not> is_write c) \<and>
      generate_mipmap_tile this col row level t preblur = (calls, Inl e)) \<and>
   ((\<forall>ij\<in>set children.
       child_read (m_platefile this) col row level t ij = Inl TileNotFoundErr) \<longrightarrow>
      generate_mipmap_tile this col row level t preblur =
        (map (child_call col row level t) children, Inr ())) \<and>
   is_transparent tile = (\<forall>x<cols tile. \<forall>y<rows tile. \<not> px_valid (pixel tile x y))"
proof (intro conjI impI allI)
  fix calls super
  assume r: "read_children this col row level t = (calls, Inr super)"
  from read_children_Inr [OF r]
  show c: "calls = map (child_call col row level t) children" by blast
  show "\<forall>c\<in>set calls. \<not> is_write c"
    by (auto simp: c is_write_child_call)
  show "generate_mipmap_tile this col row level t preblur =
        (if is_transparent (downsample preblur super) then (calls, Inr ())
         else (calls @ [Write_update_call (downsample preblur super) col row level t], Inr ()))"
    by (rule generate_mipmap_tile_Inr [OF r])
next
  fix calls e
  assume r: "read_children this col row level t = (calls, Inl e)"
  from read_children_Inl [OF r]
  show "\<forall>c\<in>set calls. \<not> is_write c"
    by (auto simp: is_write_child_call)
  show "generate_mipmap_tile this col row level t preblur = (calls, Inl e)"
    by (rule generate_mipmap_tile_Inl [OF r])
next
  assume "\<forall>ij\<in>set children.
       child_read (m_platefile this) col row level t ij = Inl TileNotFoundErr"
  from read_children_all_absent [OF this]
  show "generate_mipmap_tile this col row level t preblur =
        (map (child_call col row level t) children, Inr ())"
    by (simp add: generate_mipmap_tile_def Let_def downsample_blank_transparent ImageView_new_def)
next
  show "is_transparent tile = (\<forall>x<cols tile. \<forall>y<rows tile. \<not> px_valid (pixel tile x y))"
    by (rule is_transparent_iff)
qed



lemma child_read_empty:
  "child_read (m_platefile (manager_of (empty_platefile n))) col row level t ij = Inl TileNotFoundErr"
  by (simp add: child_read_def manager_of_def empty_platefile_def absent_read_def)

lemma child_read_one_child:
  "fst ij < 2 \<Longrightarrow> snd ij < 2 \<Longrightarrow>
   child_read (m_platefile (manager_of (one_child_platefile n))) 0 0 level t ij =
     (if ij = (1, 0) then Inr (opaque_tile n) else Inl TileNotFoundErr)"
  by (cases ij)
    (auto simp: less_2_cases_iff child_read_def manager_of_def one_child_platefile_def
      one_child_read_def)

lemma child_read_failing:
  "fst ij < 2 \<Longrightarrow> snd ij < 2 \<Longrightarrow>
   child_read (m_platefile (manager_of (failing_platefile n))) 0 0 level t ij =
     (if ij = (1, 0) then Inl (IOErr ''disk'')
      else if ij = (0, 0) then Inr (opaque_tile n) else Inl TileNotFoundErr)"
  by (cases ij)
    (auto simp: less_2_cases_iff child_read_def manager_of_def failing_platefile_def
      failing_read_def)

lemma tile_size_examples:
  "default_tile_size (m_platefile (manager_of (one_child_platefile n))) = n"
  "default_tile_size (m_platefile (manager_of (failing_platefile n))) = n"
  "default_tile_size (m_platefile (manager_of (empty_platefile n))) = n"
  by (simp_all add: manager_of_def one_child_platefile_def failing_platefile_def empty_platefile_def)

lemma children_split: "children = [(0, 0)] @ (1, 0) # [(0, 1), (1, 1)]"
  by (simp add: children_def)

lemma pixel_opaque_tile: "pixel (opaque_tile n) x y = opaque_pixel"
  by (simp add: opaque_tile_def opaque_pixels_def)





text \<open>
  C2 for tiles of side 2: one child present at \<open>(1, 0)\<close>, and a store whose second
  read fails.
\<close>

theorem children_read_and_placed_witness:
  "read_children (manager_of (one_child_platefile 2)) 0 0 0 7 =
     ([Read_call 0 0 1 7 True, Read_call 1 0 1 7 True, Read_call 0 1 1 7 True, Read_call 1 1 1 7 True],
      Inr (projr (snd (read_children (manager_of (one_child_platefile 2)) 0 0 0 7)))) \<and>
   map call_coords (fst (read_children (manager_of (one_child_platefile 2)) 0 0 0 7)) =
     [(0, 0, 1), (1, 0, 1), (0, 1, 1), (1, 1, 1)] \<and>
   pixel (projr (snd (read_children (manager_of (one_child_platefile 2)) 0 0 0 7))) 2 0 = opaque_pixel \<and>
   pixel (projr (snd (read_children (manager_of (one_child_platefile 2)) 0 0 0 7))) 3 1 = opaque_pixel \<and>
   pixel (projr (snd (read_children (manager_of (one_child_platefile 2)) 0 0 0 7))) 1 1 =
     PixelGrayA_default \<and>
   pixel (projr (snd (read_children (manager_of (one_child_platefile 2)) 0 0 0 7))) 2 2 =
     PixelGrayA_default \<and>
   read_children (manager_of (failing_platefile 2)) 0 0 0 7 =
     ([Read_call 0 0 1 7 True, Read_call 1 0 1 7 True], Inl (IOErr ''disk'')) \<and>
   generate_mipmap_tile (manager_of (failing_platefile 2)) 0 0 0 7 True =
     ([Read_call 0 0 1 7 True, Read_call 1 0 1 7 True], Inl (IOErr ''disk''))"
proof -
  let ?M = "manager_of (one_child_platefile 2)" and ?F = "manager_of (failing_platefile 2)"
  note T = children_read_and_placed [of 0 0 0 7 ?M]
  note U = children_read_and_placed [of 0 0 0 7 ?F True]
  have nf: "\<forall>ij\<in>set children. \<not> fatal (child_read (m_platefile ?M) 0 0 0 7 ij)"
    by (simp add: children_def child_read_one_child)
  with T obtain super where
    r: "read_children ?M 0 0 0 7 = (map (child_call 0 0 0 7) children, Inr super)"
    and p: "\<forall>i<2. \<forall>j<2. \<forall>x<default_tile_size (m_platefile ?M). \<forall>y<default_tile_size (m_platefile ?M).
              pixel super (default_tile_size (m_platefile ?M) * i + x)
                          (default_tile_size (m_platefile ?M) * j + y) =
                (case child_read (m_platefile ?M) 0 0 0 7 (i, j) of
                   Inr child \<Rightarrow> pixel child x y
                 | Inl e \<Rightarrow> PixelGrayA_default)"
    by blast
  have s: "projr (snd (read_children ?M 0 0 0 7)) = super" by (simp add: r)
  have c: "map (child_call 0 0 0 7) children =
      [Read_call 0 0 1 7 True, Read_call 1 0 1 7 True, Read_call 0 1 1 7 True, Read_call 1 1 1 7 True]"
    by (simp add: child_calls)
  have rg: "- (2 ^ 30) \<le> sint (0 :: int32) \<and> sint (0 :: int32) < 2 ^ 30 \<and>
      - (2 ^ 30) \<le> sint (0 :: int32) \<and> sint (0 :: int32) < 2 ^ 30 \<and> sint (0 :: int32) < 2 ^ 31 - 1"
    by simp
  from T [THEN conjunct2, THEN conjunct1, THEN mp, OF rg]
  have "map call_coords (map (child_call 0 0 0 7) children) = [(0, 0, 1), (1, 0, 1), (0, 1, 1), (1, 1, 1)]"
    by simp
  then have cc: "map call_coords (fst (read_children ?M 0 0 0 7)) =
      [(0, 0, 1), (1, 0, 1), (0, 1, 1), (1, 1, 1)]"
    by (simp add: r)
  from p have q: "i < 2 \<Longrightarrow> j < 2 \<Longrightarrow> x < 2 \<Longrightarrow> y < 2 \<Longrightarrow>
      pixel super (2 * i + x) (2 * j + y) =
        (if (i, j) = (1, 0) then opaque_pixel else PixelGrayA_default)" for i j x y
    by (simp add: tile_size_examples child_read_one_child pixel_opaque_tile)
  from q [of 1 0 0 0] have p1: "pixel super 2 0 = opaque_pixel" by simp
  from q [of 1 0 1 1] have p2: "pixel super 3 1 = opaque_pixel" by simp
  from q [of 0 0 1 1] have p3: "pixel super 1 1 = PixelGrayA_default" by simp
  from q [of 1 1 0 0] have p4: "pixel super 2 2 = PixelGrayA_default" by simp
  have "children = [(0, 0)] @ (1, 0) # [(0, 1), (1, 1)] \<and>
      (\<forall>p\<in>set [(0, 0)]. \<not> fatal (child_read (m_platefile ?F) 0 0 0 7 p)) \<and>
      child_read (m_platefile ?F) 0 0 0 7 (1, 0) = Inl (IOErr ''disk'') \<and>
      IOErr ''disk'' \<noteq> TileNotFoundErr"
    by (simp add: children_split child_read_failing)
  with U have f: "read_children ?F 0 0 0 7 =
        (map (child_call 0 0 0 7) ([(0, 0)] @ [(1, 0)]), Inl (IOErr ''disk'')) \<and>
      generate_mipmap_tile ?F 0 0 0 7 True =
        (map (child_call 0 0 0 7) ([(0, 0)] @ [(1, 0)]), Inl (IOErr ''disk''))"
    by blast
  have fc: "map (child_call 0 0 0 7) ([(0, 0)] @ [(1, 0)]) =
      [Read_call 0 0 1 7 True, Read_call 1 0 1 7 True]"
    by (simp add: child_call_def)
  from r c s p1 p2 p3 p4 f fc have "read_children ?M 0 0 0 7 =
     ([Read_call 0 0 1 7 True, Read_call 1 0 1 7 True, Read_call 0 1 1 7 True, Read_call 1 1 1 7 True],
      Inr (projr (snd (read_children ?M 0 0 0 7)))) \<and>
   pixel (projr (snd (read_children ?M 0 0 0 7))) 2 0 = opaque_pixel \<and>
   pixel (projr (snd (read_children ?M 0 0 0 7))) 3 1 = opaque_pixel \<and>
   pixel (projr (snd (read_children ?M 0 0 0 7))) 1 1 = PixelGrayA_default \<and>
   pixel (projr (snd (read_children ?M 0 0 0 7))) 2 2 = PixelGrayA_default \<and>
   read_children ?F 0 0 0 7 =
     ([Read_call 0 0 1 7 True, Read_call 1 0 1 7 True], Inl (IOErr ''disk'')) \<and>
   generate_mipmap_tile ?F 0 0 0 7 True =
     ([Read_call 0 0 1 7 True, Read_call 1 0 1 7 True], Inl (IOErr ''disk''))"
    by simp
  with cc show ?thesis by blast
qed


text \<open>
  C1 for tiles of side 2: an empty store (no write, with and without blur), a
  failing store (no write), one child present (four reads, then one write).
\<close>

theorem write_only_when_not_transparent_witness:
  "generate_mipmap_tile (manager_of (empty_platefile 2)) 0 0 0 7 True =
     ([Read_call 0 0 1 7 True, Read_call 1 0 1 7 True, Read_call 0 1 1 7 True, Read_call 1 1 1 7 True],
      Inr ()) \<and>
   generate_mipmap_tile (manager_of (empty_platefile 2)) 0 0 0 7 False =
     ([Read_call 0 0 1 7 True, Read_call 1 0 1 7 True, Read_call 0 1 1 7 True, Read_call 1 1 1 7 True],
      Inr ()) \<and>
   generate_mipmap_tile (manager_of (failing_platefile 2)) 0 0 0 7 False =
     ([Read_call 0 0 1 7 True, Read_call 1 0 1 7 True], Inl (IOErr ''disk'')) \<and>
   \<not> is_transparent (downsample False
       (projr (snd (read_children (manager_of (one_child_platefile 2)) 0 0 0 7)))) \<and>
   generate_mipmap_tile (manager_of (one_child_platefile 2)) 0 0 0 7 False =
     ([Read_call 0 0 1 7 True, Read_call 1 0 1 7 True, Read_call 0 1 1 7 True, Read_call 1 1 1 7 True,
       Write_update_call (downsample False
         (projr (snd (read_children (manager_of (one_child_platefile 2)) 0 0 0 7)))) 0 0 0 7],
      Inr ())"
proof -
  let ?E = "manager_of (empty_platefile 2)" and ?F = "manager_of (failing_platefile 2)"
  let ?M = "manager_of (one_child_platefile 2)"
  let ?S = "projr (snd (read_children ?M 0 0 0 7))"
  have c4: "map (child_call 0 0 0 7) children =
      [Read_call 0 0 1 7 True, Read_call 1 0 1 7 True, Read_call 0 1 1 7 True, Read_call 1 1 1 7 True]"
    by (simp add: child_calls)
  have ab: "\<forall>ij\<in>set children. child_read (m_platefile ?E) 0 0 0 7 ij = Inl TileNotFoundErr"
    by (simp add: child_read_empty)
  have e1: "generate_mipmap_tile ?E 0 0 0 7 True = (map (child_call 0 0 0 7) children, Inr ())"
    by (rule mp [OF write_only_when_not_transparent
          [of ?E 0 0 0 7 True, THEN conjunct2, THEN conjunct2, THEN conjunct1] ab])
  have e2: "generate_mipmap_tile ?E 0 0 0 7 False = (map (child_call 0 0 0 7) children, Inr ())"
    by (rule mp [OF write_only_when_not_transparent
          [of ?E 0 0 0 7 False, THEN conjunct2, THEN conjunct2, THEN conjunct1] ab])
  have rf: "read_children ?F 0 0 0 7 =
      ([Read_call 0 0 1 7 True, Read_call 1 0 1 7 True], Inl (IOErr ''disk''))"
    using read_children_fatal [of "[(0, 0)]" "(1, 0)" "[(0, 1), (1, 1)]" ?F 0 0 0 7 "IOErr ''disk''"]
    by (simp add: children_split child_read_failing child_call_def)
  have f: "generate_mipmap_tile ?F 0 0 0 7 False =
      ([Read_call 0 0 1 7 True, Read_call 1 0 1 7 True], Inl (IOErr ''disk''))"
    by (rule write_only_when_not_transparent
          [of ?F 0 0 0 7 False, THEN conjunct2, THEN conjunct1, rule_format, OF rf, THEN conjunct2])
  have nf: "\<forall>ij\<in>set children. \<not> fatal (child_read (m_platefile ?M) 0 0 0 7 ij)"
    by (simp add: children_def child_read_one_child)
  have rm: "read_children ?M 0 0 0 7 = (map (child_call 0 0 0 7) children, Inr ?S)"
    by (simp add: read_children_ok [OF nf])
  have "pixel ?S (2 * 1 + 0) (2 * 0 + 0) = opaque_pixel"
    using pixel_canvas [of 1 0 0 "m_platefile ?M" 0 0 0 0 7]
    by (simp add: read_children_ok [OF nf] tile_size_examples child_read_one_child pixel_opaque_tile)
  then have valid: "px_valid (pixel (downsample False ?S) 1 0)"
    by (simp add: pixel_downsample_plain px_valid_def opaque_pixel_def)
  have dims: "cols (downsample False ?S) = 2" "rows (downsample False ?S) = 2"
    using read_children_dims [OF rm] by (simp_all add: downsample_dims tile_size_examples)
  have nt: "\<not> is_transparent (downsample False ?S)"
  proof
    assume "is_transparent (downsample False ?S)"
    then have "\<forall>x<2. \<forall>y<2. \<not> px_valid (pixel (downsample False ?S) x y)"
      by (simp add: is_transparent_iff dims)
    then have "\<not> px_valid (pixel (downsample False ?S) 1 0)" by simp
    with valid show False by simp
  qed
  have "generate_mipmap_tile ?M 0 0 0 7 False =
        (if is_transparent (downsample False ?S) then (map (child_call 0 0 0 7) children, Inr ())
         else (map (child_call 0 0 0 7) children @ [Write_update_call (downsample False ?S) 0 0 0 7],
               Inr ()))"
    by (rule write_only_when_not_transparent
          [of ?M 0 0 0 7 False, THEN conjunct1, rule_format, OF rm, THEN conjunct2, THEN conjunct2])
  with nt have m: "generate_mipmap_tile ?M 0 0 0 7 False =
      (map (child_call 0 0 0 7) children @ [Write_update_call (downsample False ?S) 0 0 0 7], Inr ())"
    by simp
  from e1 e2 f nt m show ?thesis by (simp add: c4)
qed

subsection \<open>The constant 256 and the tile size of the store\<close>

lemma requested_spec_agreement:
  assumes R: "0 < R"
  shows "(\<forall>ms. length ms = 5 \<and> (\<forall>m\<in>set ms. 0 < m) \<longrightarrow>
            requested_pixels_per_meter_spec 256 R ms = requested_pixels_per_meter_spec (real n) R ms) =
         (n = 256)"
proof
  assume a: "\<forall>ms. length ms = 5 \<and> (\<forall>m\<in>set ms. 0 < m) \<longrightarrow>
            requested_pixels_per_meter_spec 256 R ms = requested_pixels_per_meter_spec (real n) R ms"
  have "length [2 * R, 2 * R, 2 * R, 2 * R, 2 * R] = 5 \<and>
      (\<forall>m\<in>set [2 * R, 2 * R, 2 * R, 2 * R, 2 * R]. 0 < m)"
    using R by simp
  with a have "requested_pixels_per_meter_spec 256 R [2 * R, 2 * R, 2 * R, 2 * R, 2 * R] =
      requested_pixels_per_meter_spec (real n) R [2 * R, 2 * R, 2 * R, 2 * R, 2 * R]"
    by blast
  then have "max (256 / (2 * R)) (1 / (2 * R)) = max (real n / (2 * R)) (1 / (2 * R))"
    by (simp add: requested_pixels_per_meter_spec_def)
  then have "max 256 1 = max (real n) 1"
    using R by (simp add: max_def divide_simps split: if_splits)
  then have "real n = 256" by (simp add: max_def split: if_splits)
  then show "n = 256" by linarith
next
  assume "n = 256"
  then show "\<forall>ms. length ms = 5 \<and> (\<forall>m\<in>set ms. 0 < m) \<longrightarrow>
            requested_pixels_per_meter_spec 256 R ms = requested_pixels_per_meter_spec (real n) R ms"
    by simp
qed

lemma log_argument_agreement:
  assumes R: "0 < R"
  shows "(\<forall>r. 0 < r \<longrightarrow> log_argument r R = r * 2 * R / real n) = (n = 256)"
proof
  assume "\<forall>r. 0 < r \<longrightarrow> log_argument r R = r * 2 * R / real n"
  then have e: "log_argument 1 R = 1 * 2 * R / real n" by simp
  have "0 < log_argument 1 R" using R by (simp add: log_argument_def)
  with e have "n \<noteq> 0" by (cases "n = 0") simp_all
  with e R have "real n = 256" by (simp add: log_argument_def divide_simps)
  then show "n = 256" by linarith
next
  assume "n = 256"
  then show "\<forall>r. 0 < r \<longrightarrow> log_argument r R = r * 2 * R / real n"
    by (simp add: log_argument_def)
qed

lemma pixel_spacing_agreement:
  assumes "0 < semi_major_axis d"
  shows "(pixel_spacing (georeference this level north_pole d) =
         2 * semi_major_axis d / (real n * 2 powr real_of_int level)) = (n = 256)"
proof
  assume "pixel_spacing (georeference this level north_pole d) =
         2 * semi_major_axis d / (real n * 2 powr real_of_int level)"
  then have eq: "2 * semi_major_axis d / (256 * 2 powr real_of_int level) =
         2 * semi_major_axis d / (real n * 2 powr real_of_int level)"
    by (simp add: pixel_spacing_def georeference_fields)
  have pos: "0 < 2 powr real_of_int level" by simp
  have "0 < 2 * semi_major_axis d / (256 * 2 powr real_of_int level)"
    using assms pos by simp
  then have "0 < 2 * semi_major_axis d / (real n * 2 powr real_of_int level)"
    using eq by simp
  then have "n \<noteq> 0" by (cases "n = 0") simp_all
  then have "real n = 256" using eq assms pos by (simp add: divide_simps)
  then show "n = 256" by linarith
next
  assume "n = 256"
  then show "pixel_spacing (georeference this level north_pole d) =
         2 * semi_major_axis d / (real n * 2 powr real_of_int level)"
    by (simp add: pixel_spacing_def georeference_fields)
qed

lemma transform_image_this:
  "transform_image lg ll gf this georef img = transform_image lg ll gf that georef img"
  by (simp add: transform_image_def Let_def georeference_def split: sum.splits)

text \<open>
  C10: the builder and the selector do not depend on the manager, hence not on
  \<^verbatim>\<open>default_tile_size()\<close>. The builder's spacing is \<open>2\<cdot>R / (256 \<cdot> 2^level)\<close> for
  every store, and for a positive \<open>R\<close> it equals the spec's
  \<open>2\<cdot>R / (tile_size \<cdot> 2^level)\<close> exactly when the store's tile size is 256. The
  selector seeds the requested resolution with \<open>256 / (2\<cdot>R)\<close>, takes the ceiling
  of the double logarithm of \<open>requested \<cdot> 2 \<cdot> R / 256\<close> as the level and returns
  a georeference of spacing \<open>2\<cdot>R / (256 \<cdot> 2^level)\<close>; for a positive \<open>R\<close> its
  requested resolution agrees with the spec's (seeded with
  \<open>tile_size / (2\<cdot>R)\<close>) on all five positive spacings, and the argument of its
  logarithm with the spec's \<open>r \<cdot> 2 \<cdot> R / tile_size\<close> on all positive \<open>r\<close>,
  exactly when the store's tile size is 256. The canvas of the synthesizer has
  the side \<open>2 \<cdot> default_tile_size()\<close>.
\<close>

theorem tile_size_constant_256:
  fixes georef :: GeoReference and img :: ImageView
    and pixel_to_lonlat :: "GeoReference \<Rightarrow> Vector2 \<Rightarrow> Vector2"
    and GeoTransform_forward :: "GeoReference \<Rightarrow> GeoReference \<Rightarrow> Vector2 \<Rightarrow> Vector2"
    and this :: PolarStereoPlateManager
  defines "tile_size \<equiv> default_tile_size (m_platefile this)"
    and "R \<equiv> semi_major_axis (datum georef)"
    and "points \<equiv>
      [(real (cols img div 2), real (rows img div 2)),
       (real (3 * cols img div 4), real (rows img div 2)),
       (real (cols img div 4), real (rows img div 2)),
       (real (cols img div 2), real (3 * rows img div 4)),
       (real (cols img div 2), real (rows img div 4))]"
  defines "north \<equiv> 2 < length (filter (\<lambda>p. 0 < snd (pixel_to_lonlat georef p)) points)"
  defines "target \<equiv>
      \<lparr>datum = datum georef,
       projection = Stereographic (if north then 90 else - 90) 0 1 0 0,
       transform = (\<lambda>(i, j). if i = j then 1 else 0)
         ((1, 1) := - 1, (0, 2) := - R, (1, 2) := R)\<rparr>"
  defines "spacings \<equiv> map (local_spacing_spec (GeoTransform_forward georef target)) points"
  defines "requested \<equiv> Max (insert (256 / (2 * R)) ((\<lambda>m. 1 / m) ` set spacings))"
  shows "georeference this level north_pole d = georeference that level north_pole d \<and>
     pixel_spacing (georeference this level north_pole d) =
       2 * semi_major_axis d / (256 * 2 powr real_of_int level) \<and>
     (0 < semi_major_axis d \<longrightarrow>
        (pixel_spacing (georeference this level north_pole d) =
           2 * semi_major_axis d / (real tile_size * 2 powr real_of_int level)) =
        (tile_size = 256)) \<and>
     transform_image log2_double pixel_to_lonlat GeoTransform_forward this georef img =
       transform_image log2_double pixel_to_lonlat GeoTransform_forward that georef img \<and>
     (0 < R \<and> (\<forall>m\<in>set spacings. m \<noteq> 0) \<longrightarrow>
        requested_resolution pixel_to_lonlat GeoTransform_forward georef img = Finite requested \<and>
        (\<forall>res. transform_image log2_double pixel_to_lonlat GeoTransform_forward this georef img =
             Inr res \<longrightarrow>
           placed_level res = \<lceil>log2_double (requested * 2 * R / 256)\<rceil> \<and>
           pixel_spacing (placed_georef res) =
             2 * R / (256 * 2 powr real_of_int (placed_level res))) \<and>
        (- (2 ^ 31) \<le> \<lceil>log2_double (requested * 2 * R / 256)\<rceil> \<and>
         \<lceil>log2_double (requested * 2 * R / 256)\<rceil> \<le> 2 ^ 31 - 1 \<longrightarrow>
           (\<exists>res. transform_image log2_double pixel_to_lonlat GeoTransform_forward this georef img =
              Inr res))) \<and>
     (0 < R \<longrightarrow>
        ((\<forall>ms. length ms = 5 \<and> (\<forall>m\<in>set ms. 0 < m) \<longrightarrow>
            requested_pixels_per_meter_spec 256 R ms =
            requested_pixels_per_meter_spec (real tile_size) R ms) = (tile_size = 256)) \<and>
        ((\<forall>r. 0 < r \<longrightarrow> log_argument r R = r * 2 * R / real tile_size) = (tile_size = 256))) \<and>
     (\<forall>calls super. read_children this col row lev t = (calls, Inr super) \<longrightarrow>
        cols super = 2 * tile_size \<and> rows super = 2 * tile_size)"
proof -
  let ?ms = "sample_spacings pixel_to_lonlat GeoTransform_forward georef img"
  have ms: "?ms = spacings"
    unfolding spacings_def target_def north_def points_def R_def
    by (rule sample_spacings_explicit)
  have q: "requested_pixels_per_meter_spec 256 R spacings = requested"
    by (simp add: requested_pixels_per_meter_spec_def requested_def)
  have lx: "log_argument requested R = requested * 2 * R / 256"
    by (simp add: log_argument_def)
  have a: "georeference this level north_pole d = georeference that level north_pole d"
    by (simp add: georeference_def)
  have b: "pixel_spacing (georeference this level north_pole d) =
     2 * semi_major_axis d / (256 * 2 powr real_of_int level)"
    by (simp add: pixel_spacing_def georeference_fields)
  have c: "0 < semi_major_axis d \<longrightarrow>
        (pixel_spacing (georeference this level north_pole d) =
           2 * semi_major_axis d / (real tile_size * 2 powr real_of_int level)) =
        (tile_size = 256)"
    using pixel_spacing_agreement by blast
  have e: "0 < R \<and> (\<forall>m\<in>set spacings. m \<noteq> 0) \<longrightarrow>
        requested_resolution pixel_to_lonlat GeoTransform_forward georef img = Finite requested \<and>
        (\<forall>res. transform_image log2_double pixel_to_lonlat GeoTransform_forward this georef img =
             Inr res \<longrightarrow>
           placed_level res = \<lceil>log2_double (requested * 2 * R / 256)\<rceil> \<and>
           pixel_spacing (placed_georef res) =
             2 * R / (256 * 2 powr real_of_int (placed_level res))) \<and>
        (- (2 ^ 31) \<le> \<lceil>log2_double (requested * 2 * R / 256)\<rceil> \<and>
         \<lceil>log2_double (requested * 2 * R / 256)\<rceil> \<le> 2 ^ 31 - 1 \<longrightarrow>
           (\<exists>res. transform_image log2_double pixel_to_lonlat GeoTransform_forward this georef img =
              Inr res))"
  proof (intro impI conjI allI)
    assume h: "0 < R \<and> (\<forall>m\<in>set spacings. m \<noteq> 0)"
    then have Rp: "0 < semi_major_axis (datum georef)" by (simp add: R_def)
    then have R0: "semi_major_axis (datum georef) \<noteq> 0" by simp
    from h have "\<forall>m\<in>set spacings. m \<noteq> 0" by (rule conjunct2)
    then have m0: "\<forall>m\<in>set ?ms. m \<noteq> 0" by (simp only: ms)
    show "requested_resolution pixel_to_lonlat GeoTransform_forward georef img = Finite requested"
      using requested_resolution_finite [OF R0 m0] by (simp only: ms R_def [symmetric] q)
    {
      fix res
      assume r: "transform_image log2_double pixel_to_lonlat GeoTransform_forward this georef img =
          Inr res"
      from transform_image_Inr [OF Rp r]
      show "placed_level res = \<lceil>log2_double (requested * 2 * R / 256)\<rceil>"
        by (simp only: ms R_def [symmetric] q lx)
      from transform_image_Inr [OF Rp r]
      have "placed_georef res = georeference this (placed_level res) (placed_north res) (datum georef)"
        by blast
      then show "pixel_spacing (placed_georef res) =
          2 * R / (256 * 2 powr real_of_int (placed_level res))"
        by (simp add: pixel_spacing_def georeference_fields R_def)
    }
    assume "- (2 ^ 31) \<le> \<lceil>log2_double (requested * 2 * R / 256)\<rceil> \<and>
         \<lceil>log2_double (requested * 2 * R / 256)\<rceil> \<le> 2 ^ 31 - 1"
    moreover have "transform_image log2_double pixel_to_lonlat GeoTransform_forward this georef img =
       (case numeric_cast_int \<lceil>log2_double (requested * 2 * R / 256)\<rceil> of
          Inl e \<Rightarrow> Inl e
        | Inr l \<Rightarrow> Inr \<lparr>placed_level = l, placed_north = is_north_of pixel_to_lonlat georef img,
                         placed_georef = georeference this l (is_north_of pixel_to_lonlat georef img)
                           (datum georef)\<rparr>)"
      using transform_image_finite [OF Rp m0, of log2_double this]
      by (simp only: ms R_def [symmetric] q lx)
    ultimately show "\<exists>res. transform_image log2_double pixel_to_lonlat GeoTransform_forward this
        georef img = Inr res"
      by (simp add: numeric_cast_int_def)
  qed
  have f: "0 < R \<longrightarrow>
        ((\<forall>ms. length ms = 5 \<and> (\<forall>m\<in>set ms. 0 < m) \<longrightarrow>
            requested_pixels_per_meter_spec 256 R ms =
            requested_pixels_per_meter_spec (real tile_size) R ms) = (tile_size = 256)) \<and>
        ((\<forall>r. 0 < r \<longrightarrow> log_argument r R = r * 2 * R / real tile_size) = (tile_size = 256))"
    using requested_spec_agreement [of R tile_size] log_argument_agreement [of R tile_size]
    by blast
  have g: "\<forall>calls super. read_children this col row lev t = (calls, Inr super) \<longrightarrow>
        cols super = 2 * tile_size \<and> rows super = 2 * tile_size"
    unfolding tile_size_def using read_children_dims by blast
  from a b c transform_image_this e f g show ?thesis by blast
qed


text \<open>
  C10 for a store of tile size 512 and the unit sphere: spacing \<open>1/128\<close> and not
  \<open>1/256\<close>, the same georeference as for a store of tile size 256, a requested
  resolution of 1000 and level 3 for local spacings of \<open>1/1000\<close>, an argument of
  the logarithm that is not the spec's, a canvas of side 1024.
\<close>

theorem tile_size_constant_256_witness:
  "pixel_spacing (georeference (manager_of (empty_platefile 512)) 0 True unit_datum) = 1 / 128 \<and>
   pixel_spacing (georeference (manager_of (empty_platefile 512)) 0 True unit_datum) \<noteq>
     2 * semi_major_axis unit_datum /
       (real (default_tile_size (m_platefile (manager_of (empty_platefile 512)))) * 2 powr real_of_int 0) \<and>
   georeference (manager_of (empty_platefile 512)) 0 True unit_datum =
     georeference (manager_of (empty_platefile 256)) 0 True unit_datum \<and>
   requested_resolution (shifted_lonlat (- 3)) scale_forward (GeoReference_of unit_datum)
     (ImageView_new 8 8) = Finite 1000 \<and>
   map_sum id placed_level
     (transform_image exact_log2 (shifted_lonlat (- 3)) scale_forward (manager_of (empty_platefile 512))
        (GeoReference_of unit_datum) (ImageView_new 8 8)) = Inr 3 \<and>
   \<not> (\<forall>r. 0 < r \<longrightarrow>
        log_argument r (semi_major_axis (datum (GeoReference_of unit_datum))) =
          r * 2 * semi_major_axis (datum (GeoReference_of unit_datum)) /
            real (default_tile_size (m_platefile (manager_of (empty_platefile 512))))) \<and>
   cols (projr (snd (read_children (manager_of (empty_platefile 512)) 0 0 0 7))) = 1024"
proof -
  let ?M = "manager_of (empty_platefile 512)" and ?G = "GeoReference_of unit_datum"
  let ?I = "ImageView_new 8 8"
  have r: "read_children ?M 0 0 0 7 =
     (fst (read_children ?M 0 0 0 7), Inr (projr (snd (read_children ?M 0 0 0 7))))"
    by (simp add: read_children_empty)
  have ts: "default_tile_size (m_platefile ?M) = 512"
    by (simp add: manager_of_def empty_platefile_def)
  have Rd: "0 < semi_major_axis unit_datum" by (simp add: unit_datum_def)
  have R: "0 < semi_major_axis (datum ?G)"
    by (simp add: GeoReference_of_def unit_datum_def)
  have d: "semi_major_axis (datum ?G) = 1" "datum ?G = unit_datum"
    by (simp_all add: GeoReference_of_def unit_datum_def)
  have u: "semi_major_axis unit_datum = 1" by (simp add: unit_datum_def)
  note T = tile_size_constant_256 [where this = ?M and that = "manager_of (empty_platefile 256)"
      and level = 0 and north_pole = True and d = unit_datum and georef = ?G and img = ?I
      and pixel_to_lonlat = "shifted_lonlat (- 3)" and GeoTransform_forward = scale_forward
      and log2_double = exact_log2 and col = 0 and row = 0 and lev = 0 and t = 7]
  note p3 = T [THEN conjunct1]
  from T [THEN conjunct2, THEN conjunct1]
  have q1: "pixel_spacing (georeference ?M 0 True unit_datum) = 1 / 128"
    by (simp add: unit_datum_def)
  from T [THEN conjunct2, THEN conjunct2, THEN conjunct1, THEN mp, OF Rd]
  have q2: "pixel_spacing (georeference ?M 0 True unit_datum) \<noteq>
      2 * semi_major_axis unit_datum /
       (real (default_tile_size (m_platefile ?M)) * 2 powr real_of_int 0)"
    by (simp add: ts)
  have E: "requested_resolution (shifted_lonlat (- 3)) scale_forward ?G ?I = Finite 1000 \<and>
      (\<forall>res. transform_image exact_log2 (shifted_lonlat (- 3)) scale_forward ?M ?G ?I = Inr res \<longrightarrow>
         placed_level res = \<lceil>exact_log2 (125 / 16)\<rceil>)"
    using T [THEN conjunct2, THEN conjunct2, THEN conjunct2, THEN conjunct2, THEN conjunct1]
    by (simp add: local_spacing_spec_scale_forward d u ImageView_new_def shifted_lonlat_def)
  have x: "transform_image exact_log2 (shifted_lonlat (- 3)) scale_forward ?M ?G ?I =
      Inr (projr (transform_image exact_log2 (shifted_lonlat (- 3)) scale_forward ?M ?G ?I))"
    by (simp add: transform_image_example)
  from E [THEN conjunct2, rule_format, OF x]
  have "placed_level (projr (transform_image exact_log2 (shifted_lonlat (- 3)) scale_forward ?M ?G ?I)) = 3"
    by (simp add: exact_log2_example)
  moreover have "map_sum id placed_level
      (transform_image exact_log2 (shifted_lonlat (- 3)) scale_forward ?M ?G ?I) =
      Inr (placed_level (projr (transform_image exact_log2 (shifted_lonlat (- 3)) scale_forward ?M ?G ?I)))"
    by (subst x) simp
  ultimately have q5: "map_sum id placed_level
      (transform_image exact_log2 (shifted_lonlat (- 3)) scale_forward ?M ?G ?I) = Inr 3"
    by simp
  note F = T [THEN conjunct2, THEN conjunct2, THEN conjunct2, THEN conjunct2, THEN conjunct2,
      THEN conjunct1, THEN mp, OF R, THEN conjunct2]
  have q6: "\<not> (\<forall>r. 0 < r \<longrightarrow>
        log_argument r (semi_major_axis (datum ?G)) =
          r * 2 * semi_major_axis (datum ?G) / real (default_tile_size (m_platefile ?M)))"
  proof
    assume "\<forall>r. 0 < r \<longrightarrow>
        log_argument r (semi_major_axis (datum ?G)) =
          r * 2 * semi_major_axis (datum ?G) / real (default_tile_size (m_platefile ?M))"
    with F have "default_tile_size (m_platefile ?M) = 256" by (rule iffD1)
    then show False by (simp add: ts)
  qed
  from T [THEN conjunct2, THEN conjunct2, THEN conjunct2, THEN conjunct2, THEN conjunct2,
      THEN conjunct2, rule_format, OF r]
  have q7: "cols (projr (snd (read_children ?M 0 0 0 7))) = 1024"
    by (simp add: ts)
  from q1 q2 p3 E [THEN conjunct1] q5 q6 q7 show ?thesis by (intro conjI)
qed

end
